theory Spec2Isabelle
  imports Complex_Main "HOL-Library.Sublist"
begin

section \<open>Common ground: strings, errors\<close>

text \<open>
  A TypeScript string is modelled as a \<^typ>\<open>string\<close>; one \<^typ>\<open>char\<close> stands for one
  UTF-16 code unit, so \<open>length\<close>, \<open>take\<close>, \<open>drop\<close> and \<open>prefix\<close> are \<open>.length\<close>,
  \<open>.slice\<close> and \<open>.startsWith\<close>. Every operation of the modelled code treats code units
  uniformly, apart from the white space and the few punctuation characters named below.
\<close>

datatype error =
    Error string          \<comment> \<open>\<open>throw new Error(msg)\<close>\<close>
  | TypeError             \<comment> \<open>raised by the runtime: property of null, call of a non-function\<close>
  | HttpError nat         \<comment> \<open>a rejected request carrying an HTTP status\<close>
  | NetworkError          \<comment> \<open>a rejected request without a status\<close>
  | RetryExhausted string error

text \<open>\<open>Array.prototype.join\<close> on strings.\<close>

fun join :: "string \<Rightarrow> string list \<Rightarrow> string" where
  "join sep [] = []"
| "join sep [x] = x"
| "join sep (x # y # zs) = x @ sep @ join sep (y # zs)"

text \<open>Decimal digits of a natural number, for the numbers interpolated into labels.\<close>

fun digits :: "nat \<Rightarrow> string" where
  "digits n =
     (if n < 10 then [''0123456789'' ! n]
      else digits (n div 10) @ [''0123456789'' ! (n mod 10)])"

declare digits.simps [simp del]

section \<open>Review status: \<open>getPRStatus\<close>\<close>

text \<open>
  The source holds two listings of the module that defines \<open>getPRStatus\<close>: one that calls
  the GitHub client directly and reports a failure only once everything has settled
  (part 000, lines 1 to 175), and one that wraps every request in \<open>withRetry\<close> and reports
  a failure as soon as one is seen (part 000, lines 176 to 353). Both are embedded; the
  second keeps the name \<open>getPRStatus\<close>, the first is \<open>getPRStatus_settled\<close>.
\<close>

subsection \<open>Data\<close>

datatype ci_status = CI_success | CI_failure | CI_pending

record PRStatus =
  merged :: bool
  mergeable :: "bool option"
  branch :: string
  ciStatus :: ci_status
  ciDetails :: string

text \<open>The fields of the three responses that the function reads.\<close>

record pull =
  pr_merged :: bool
  pr_mergeable :: "bool option"
  pr_head_ref :: string
  pr_head_sha :: string

record commit_status =
  s_state :: string
  s_context :: string
  s_description :: "string option"

record combined_status =
  cs_state :: string
  cs_statuses :: "commit_status list"

record check_run =
  c_name :: string
  c_status :: string
  c_conclusion :: "string option"

subsection \<open>The client and the requests\<close>

datatype request =
    PullsGet string string nat
  | GetCombinedStatusForRef string string string
  | ChecksListForRef string string string

text \<open>
  The process state the module touches: the environment variable, the cached client
  (\<open>_client\<close>), the requests sent so far and the warnings of the retry wrapper.
\<close>

record gh_world =
  GITHUB_TOKEN :: "string option"
  client :: bool
  requests :: "request list"
  retry_warnings :: "(string \<times> nat) list"

text \<open>
  The remote service: what each request answers, given the requests sent before it.
\<close>

record github =
  pulls_get :: "request list \<Rightarrow> string \<Rightarrow> string \<Rightarrow> nat \<Rightarrow> error + pull"
  getCombinedStatusForRef ::
    "request list \<Rightarrow> string \<Rightarrow> string \<Rightarrow> string \<Rightarrow> error + combined_status"
  checks_listForRef ::
    "request list \<Rightarrow> string \<Rightarrow> string \<Rightarrow> string \<Rightarrow> error + check_run list"

type_synonym 'a gh_action = "gh_world \<Rightarrow> gh_world \<times> (error + 'a)"

definition token_missing_message :: string where
  "token_missing_message =
     ''GITHUB_TOKEN environment variable is not set.'' @ [CHR 0x0A] @
     ''Create one at: https://github.com/settings/tokens'' @ [CHR 0x0A] @
     ''Then: export GITHUB_TOKEN=ghp_...''"

definition getGitHubClient :: "unit gh_action" where
  "getGitHubClient w =
     (if client w then (w, Inr ())
      else (case GITHUB_TOKEN w of
              None \<Rightarrow> (w, Inl (Error token_missing_message))
            | Some token \<Rightarrow>
                if token = [] then (w, Inl (Error token_missing_message))
                else (w\<lparr>client := True\<rparr>, Inr ())))"

definition call_pulls_get :: "github \<Rightarrow> string \<Rightarrow> string \<Rightarrow> nat \<Rightarrow> pull gh_action" where
  "call_pulls_get gh owner repo prNumber w =
     (w\<lparr>requests := requests w @ [PullsGet owner repo prNumber]\<rparr>,
      pulls_get gh (requests w) owner repo prNumber)"

definition call_getCombinedStatusForRef ::
  "github \<Rightarrow> string \<Rightarrow> string \<Rightarrow> string \<Rightarrow> combined_status gh_action" where
  "call_getCombinedStatusForRef gh owner repo sha w =
     (w\<lparr>requests := requests w @ [GetCombinedStatusForRef owner repo sha]\<rparr>,
      getCombinedStatusForRef gh (requests w) owner repo sha)"

definition call_checks_listForRef ::
  "github \<Rightarrow> string \<Rightarrow> string \<Rightarrow> string \<Rightarrow> (check_run list) gh_action" where
  "call_checks_listForRef gh owner repo sha w =
     (w\<lparr>requests := requests w @ [ChecksListForRef owner repo sha]\<rparr>,
      checks_listForRef gh (requests w) owner repo sha)"

text \<open>
  Modelled from the spec: \<open>withRetry\<close> (the module \<open>./retry\<close> is not among the sources).
  At most three attempts; an error with status 429 or 5xx, or a bare network failure, is
  transient and retried after a warning that names the label and the attempt; any other
  error propagates at once; the last error of an exhausted retry is annotated with the
  label. The waiting between attempts is time and is not modelled.
\<close>

fun isTransient :: "error \<Rightarrow> bool" where
  "isTransient (HttpError s) = (s = 429 \<or> (500 \<le> s \<and> s < 600))"
| "isTransient NetworkError = True"
| "isTransient _ = False"

fun retry_loop :: "'a gh_action \<Rightarrow> string \<Rightarrow> nat \<Rightarrow> nat \<Rightarrow> 'a gh_action" where
  "retry_loop operation label attempt left w =
     (case operation w of
        (w', Inr v) \<Rightarrow> (w', Inr v)
      | (w', Inl e) \<Rightarrow>
          if \<not> isTransient e then (w', Inl e)
          else (case left of
                  0 \<Rightarrow> (w', Inl (RetryExhausted label e))
                | Suc k \<Rightarrow>
                    retry_loop operation label (Suc attempt) k
                      (w'\<lparr>retry_warnings := retry_warnings w' @ [(label, attempt)]\<rparr>)))"

declare retry_loop.simps [simp del]

definition withRetry :: "'a gh_action \<Rightarrow> string \<Rightarrow> 'a gh_action" where
  "withRetry operation label = retry_loop operation label 1 2"

subsection \<open>Collecting the failure details\<close>

definition status_failed :: "commit_status \<Rightarrow> bool" where
  "status_failed s \<longleftrightarrow> s_state s = ''failure'' \<or> s_state s = ''error''"

definition status_detail :: "commit_status \<Rightarrow> string" where
  "status_detail s =
     s_context s @ '': '' @ (case s_description s of None \<Rightarrow> ''failed'' | Some d \<Rightarrow> d)"

definition check_failed :: "check_run \<Rightarrow> bool" where
  "check_failed c \<longleftrightarrow>
     c_conclusion c = Some ''failure'' \<or> c_conclusion c = Some ''timed_out''"

definition check_detail :: "check_run \<Rightarrow> string" where
  "check_detail c = c_name c @ '': '' @ (case c_conclusion c of None \<Rightarrow> ''null'' | Some r \<Rightarrow> r)"

text \<open>The two \<open>for ... of\<close> loops that push onto \<open>failureDetails\<close>.\<close>

fun push_status_failures :: "commit_status list \<Rightarrow> string list \<Rightarrow> string list" where
  "push_status_failures [] failureDetails = failureDetails"
| "push_status_failures (s # ss) failureDetails =
     push_status_failures ss
       (if status_failed s then failureDetails @ [status_detail s] else failureDetails)"

fun push_check_failures :: "check_run list \<Rightarrow> string list \<Rightarrow> string list" where
  "push_check_failures [] failureDetails = failureDetails"
| "push_check_failures (c # cs) failureDetails =
     push_check_failures cs
       (if check_failed c then failureDetails @ [check_detail c] else failureDetails)"

definition fallback_detail :: string where
  "fallback_detail = ''CI checks failed (see PR for details)''"

definition push_fallback :: "ci_status \<Rightarrow> string list \<Rightarrow> string list" where
  "push_fallback ci failureDetails =
     (if ci = CI_failure \<and> failureDetails = [] then failureDetails @ [fallback_detail]
      else failureDetails)"

definition merged_result :: "pull \<Rightarrow> PRStatus" where
  "merged_result pr =
     \<lparr>merged = True, mergeable = None, branch = pr_head_ref pr,
      ciStatus = CI_success, ciDetails = []\<rparr>"

subsection \<open>\<open>getPRStatus\<close> with retries (part 000, lines 263 to 353)\<close>

text \<open>Lines 300 to 352: the verdict from the two fetched responses.\<close>

definition aggregate :: "pull \<Rightarrow> combined_status \<Rightarrow> check_run list \<Rightarrow> PRStatus" where
  "aggregate pr statusResult checks =
     (let statusState = cs_state statusResult;
          (ci1, fd1) =
            (if statusState = ''failure''
             then (CI_failure, push_status_failures (cs_statuses statusResult) [])
             else (CI_pending, []));
          hasFailedCheck = list_ex check_failed checks;
          allChecksComplete = list_all (\<lambda>c. c_status c = ''completed'') checks;
          allChecksPass =
            list_all (\<lambda>c. c_status c = ''completed'' \<and>
                        (c_conclusion c = Some ''success'' \<or> c_conclusion c = Some ''skipped''))
              checks;
          (ci2, fd2) =
            (if hasFailedCheck then (CI_failure, push_check_failures checks fd1)
             else if statusState = ''success'' \<and> allChecksComplete \<and> allChecksPass
             then (CI_success, fd1)
             else (ci1, fd1));
          fd3 = push_fallback ci2 fd2
      in \<lparr>merged = False, mergeable = pr_mergeable pr, branch = pr_head_ref pr,
          ciStatus = ci2, ciDetails = join [CHR 0x0A] fd3\<rparr>)"

text \<open>
  \<open>Promise.all\<close> starts both requests; the model runs them one after the other and, when
  both are rejected, reports the first one's error (the source reports whichever is
  rejected first in time).
\<close>

text \<open>The three wrapped requests (lines 270 to 273 and 288 to 298).\<close>

definition fetchPR :: "github \<Rightarrow> string \<Rightarrow> string \<Rightarrow> nat \<Rightarrow> pull gh_action" where
  "fetchPR gh owner repo prNumber =
     withRetry (call_pulls_get gh owner repo prNumber) (''getPR #'' @ digits prNumber)"

definition fetchStatus ::
  "github \<Rightarrow> string \<Rightarrow> string \<Rightarrow> nat \<Rightarrow> string \<Rightarrow> combined_status gh_action" where
  "fetchStatus gh owner repo prNumber sha =
     withRetry (call_getCombinedStatusForRef gh owner repo sha)
       (''getStatus #'' @ digits prNumber)"

definition fetchChecks ::
  "github \<Rightarrow> string \<Rightarrow> string \<Rightarrow> nat \<Rightarrow> string \<Rightarrow> (check_run list) gh_action" where
  "fetchChecks gh owner repo prNumber sha =
     withRetry (call_checks_listForRef gh owner repo sha)
       (''getChecks #'' @ digits prNumber)"

definition getPRStatus :: "github \<Rightarrow> string \<Rightarrow> string \<Rightarrow> nat \<Rightarrow> PRStatus gh_action" where
  "getPRStatus gh owner repo prNumber w0 =
     (case getGitHubClient w0 of
        (w1, Inl e) \<Rightarrow> (w1, Inl e)
      | (w1, Inr _) \<Rightarrow>
     (case fetchPR gh owner repo prNumber w1 of
        (w2, Inl e) \<Rightarrow> (w2, Inl e)
      | (w2, Inr pr) \<Rightarrow>
          if pr_merged pr then (w2, Inr (merged_result pr))
          else
            (let sha = pr_head_sha pr;
                 (w3, statusResult) = fetchStatus gh owner repo prNumber sha w2;
                 (w4, checksResult) = fetchChecks gh owner repo prNumber sha w3
             in (case statusResult of
                   Inl e \<Rightarrow> (w4, Inl e)
                 | Inr st \<Rightarrow>
                     (case checksResult of
                        Inl e \<Rightarrow> (w4, Inl e)
                      | Inr checks \<Rightarrow> (w4, Inr (aggregate pr st checks)))))))"

subsection \<open>\<open>getPRStatus\<close> without retries (part 000, lines 86 to 175)\<close>

text \<open>Lines 117 to 174: nothing but \<open>pending\<close> until every status and check is final.\<close>

definition aggregate_settled :: "pull \<Rightarrow> combined_status \<Rightarrow> check_run list \<Rightarrow> PRStatus" where
  "aggregate_settled pr statusResult checks =
     (let statusState = cs_state statusResult;
          allStatusesFinal =
            list_all (\<lambda>s. s_state s \<noteq> ''pending'') (cs_statuses statusResult);
          allChecksComplete = list_all (\<lambda>c. c_status c = ''completed'') checks;
          allSettled = (allStatusesFinal \<and> allChecksComplete);
          (ci, fd) =
            (if \<not> allSettled then (CI_pending, [])
             else
               (let hasStatusFailure = (statusState = ''failure'' \<or> statusState = ''error'');
                    hasCheckFailure = list_ex check_failed checks
                in if hasStatusFailure \<or> hasCheckFailure
                   then (CI_failure,
                         push_check_failures checks
                           (push_status_failures (cs_statuses statusResult) []))
                   else (CI_success, [])));
          fd' = push_fallback ci fd
      in \<lparr>merged = False, mergeable = pr_mergeable pr, branch = pr_head_ref pr,
          ciStatus = ci, ciDetails = join [CHR 0x0A] fd'\<rparr>)"

definition getPRStatus_settled ::
  "github \<Rightarrow> string \<Rightarrow> string \<Rightarrow> nat \<Rightarrow> PRStatus gh_action" where
  "getPRStatus_settled gh owner repo prNumber w0 =
     (case getGitHubClient w0 of
        (w1, Inl e) \<Rightarrow> (w1, Inl e)
      | (w1, Inr _) \<Rightarrow>
     (case call_pulls_get gh owner repo prNumber w1 of
        (w2, Inl e) \<Rightarrow> (w2, Inl e)
      | (w2, Inr pr) \<Rightarrow>
          if pr_merged pr then (w2, Inr (merged_result pr))
          else
            (let sha = pr_head_sha pr;
                 (w3, statusResult) = call_getCombinedStatusForRef gh owner repo sha w2;
                 (w4, checksResult) = call_checks_listForRef gh owner repo sha w3
             in (case statusResult of
                   Inl e \<Rightarrow> (w4, Inl e)
                 | Inr st \<Rightarrow>
                     (case checksResult of
                        Inl e \<Rightarrow> (w4, Inl e)
                      | Inr checks \<Rightarrow> (w4, Inr (aggregate_settled pr st checks)))))))"

section \<open>Agent messages: \<open>activity.ts\<close>\<close>

subsection \<open>Values\<close>

text \<open>
  The argument of \<open>processAgentMessage\<close> has type \<open>unknown\<close>. The model ranges over the
  values a decoded message can be: \<open>undefined\<close>, \<open>null\<close>, booleans, finite numbers,
  strings, arrays and plain objects (a list of key and value pairs; the first pair of a
  key is the one that counts).
\<close>

datatype jsval =
    JUndefined
  | JNull
  | JBool bool
  | JNum rat
  | JStr string
  | JArr "jsval list"
  | JObj "(string \<times> jsval) list"

text \<open>
  What the code takes from the runtime and the model does not compute: the clock
  (\<open>now k\<close> is the reading of the \<open>k\<close>-th call of \<open>Date.now()\<close> within one call of
  \<open>processAgentMessage\<close>, counted from 0), the text of a number, and the text of
  \<open>Math.round(v / 1000)\<close>, which is floating-point arithmetic on a value converted to a
  number.
\<close>

record jsrt =
  now :: "nat \<Rightarrow> int"
  numText :: "rat \<Rightarrow> string"
  roundSecondsText :: "jsval \<Rightarrow> error + string"

fun nullish :: "jsval \<Rightarrow> bool" where
  "nullish JUndefined = True"
| "nullish JNull = True"
| "nullish _ = False"

fun truthy :: "jsval \<Rightarrow> bool" where
  "truthy JUndefined = False"
| "truthy JNull = False"
| "truthy (JBool b) = b"
| "truthy (JNum q) = (q \<noteq> 0)"
| "truthy (JStr s) = (s \<noteq> [])"
| "truthy (JArr xs) = True"
| "truthy (JObj kvs) = True"

text \<open>
  \<open>v.k\<close> for a value \<open>v\<close> that is neither \<open>null\<close> nor \<open>undefined\<close> (on those the read
  raises, which each caller below checks first) and a key that no built-in prototype
  defines; all keys read through \<open>jsget\<close> are of that kind. \<open>.length\<close>, \<open>.join\<close> and
  \<open>.slice\<close> have functions of their own.
\<close>

fun jsget :: "jsval \<Rightarrow> string \<Rightarrow> jsval" where
  "jsget (JObj kvs) k = (case map_of kvs k of None \<Rightarrow> JUndefined | Some v \<Rightarrow> v)"
| "jsget _ k = JUndefined"

text \<open>\<open>k in v\<close>, reached only where \<open>v\<close> is an object.\<close>

fun hasProp :: "jsval \<Rightarrow> string \<Rightarrow> bool" where
  "hasProp (JObj kvs) k = (map_of kvs k \<noteq> None)"
| "hasProp _ k = False"

text \<open>
  \<open>String(v)\<close>, also the conversion inside a template literal. An array joins the texts
  of its elements with a comma, \<open>null\<close> and \<open>undefined\<close> elements giving the empty text. A
  plain object gives \<open>[object Object]\<close>, unless it has a key \<open>toString\<close> of its own: that
  value cannot be called, \<open>valueOf\<close> yields no primitive either, and the conversion raises.
\<close>

fun toStr :: "jsrt \<Rightarrow> jsval \<Rightarrow> error + string"
  and toStrElems :: "jsrt \<Rightarrow> jsval list \<Rightarrow> error + string list" where
  "toStr rt JUndefined = Inr ''undefined''"
| "toStr rt JNull = Inr ''null''"
| "toStr rt (JBool b) = Inr (if b then ''true'' else ''false'')"
| "toStr rt (JNum q) = Inr (numText rt q)"
| "toStr rt (JStr s) = Inr s"
| "toStr rt (JArr xs) =
     (case toStrElems rt xs of Inl e \<Rightarrow> Inl e | Inr ss \<Rightarrow> Inr (join '','' ss))"
| "toStr rt (JObj kvs) =
     (if map_of kvs ''toString'' \<noteq> None then Inl TypeError else Inr ''[object Object]'')"
| "toStrElems rt [] = Inr []"
| "toStrElems rt (x # xs) =
     (case (if nullish x then Inr [] else toStr rt x) of
        Inl e \<Rightarrow> Inl e
      | Inr s \<Rightarrow> (case toStrElems rt xs of Inl e \<Rightarrow> Inl e | Inr ss \<Rightarrow> Inr (s # ss)))"

text \<open>\<open>v.slice(0, 200)\<close>: strings and arrays have the method, nothing else does.\<close>

fun slice200 :: "jsval \<Rightarrow> error + jsval" where
  "slice200 (JStr s) = Inr (JStr (take 200 s))"
| "slice200 (JArr xs) = Inr (JArr (take 200 xs))"
| "slice200 _ = Inl TypeError"

text \<open>Whether \<open>v?.length\<close> is truthy.\<close>

fun lengthTruthy :: "jsval \<Rightarrow> bool" where
  "lengthTruthy (JArr xs) = (xs \<noteq> [])"
| "lengthTruthy (JStr s) = (s \<noteq> [])"
| "lengthTruthy (JObj kvs) = truthy (jsget (JObj kvs) ''length'')"
| "lengthTruthy _ = False"

text \<open>\<open>v.join(sep)\<close>, reached only where \<open>v.length\<close> is truthy: only arrays have the method.\<close>

fun joinCall :: "jsrt \<Rightarrow> jsval \<Rightarrow> string \<Rightarrow> error + string" where
  "joinCall rt (JArr xs) sep =
     (case toStrElems rt xs of Inl e \<Rightarrow> Inl e | Inr ss \<Rightarrow> Inr (join sep ss))"
| "joinCall rt _ sep = Inl TypeError"

subsection \<open>\<open>summarizeToolUse\<close>\<close>

definition TOOL_SUMMARY_FIELDS :: "(string \<times> string) list" where
  "TOOL_SUMMARY_FIELDS =
     [(''Read'', ''file_path''),
      (''Write'', ''file_path''),
      (''Edit'', ''file_path''),
      (''NotebookEdit'', ''notebook_path''),
      (''Bash'', ''command''),
      (''Glob'', ''pattern''),
      (''Grep'', ''pattern''),
      (''WebFetch'', ''url''),
      (''WebSearch'', ''query''),
      (''TodoWrite'', ''subject''),
      (''TaskCreate'', ''subject''),
      (''TaskUpdate'', ''taskId''),
      (''TaskOutput'', ''task_id''),
      (''TaskStop'', ''task_id''),
      (''TeamCreate'', ''team_name''),
      (''TeamDelete'', ''team_name''),
      (''ToolSearch'', ''query''),
      (''SendMessage'', ''recipient'')]"

text \<open>\<open>s.split(sep)\<close> for a separator that is not empty.\<close>

function split_go :: "string \<Rightarrow> string \<Rightarrow> string \<Rightarrow> string list" where
  "split_go sep cur s =
     (if sep \<noteq> [] \<and> prefix sep s then cur # split_go sep [] (drop (length sep) s)
      else (case s of [] \<Rightarrow> [cur] | c # cs \<Rightarrow> split_go sep (cur @ [c]) cs))"
  by pat_completeness auto
termination
  by (relation "measure (\<lambda>(sep, cur, s). length s)") (auto elim!: prefixE)

declare split_go.simps [simp del]

definition split :: "string \<Rightarrow> string \<Rightarrow> string list" where
  "split s sep = split_go sep [] s"

definition shortToolName :: "string \<Rightarrow> string" where
  "shortToolName name =
     (if prefix ''mcp__'' name
      then (let parts = split (drop 5 name) ''__''
            in if length parts \<ge> 2
               then parts ! (length parts - 2) @ ''/'' @ parts ! (length parts - 1)
               else parts ! 0)
      else name)"

text \<open>\<open>.replace(/^\<bslash>//, "")\<close>: one leading slash is dropped.\<close>

fun stripLeadingSlash :: "string \<Rightarrow> string" where
  "stripLeadingSlash (c # cs) = (if c = CHR ''/'' then cs else c # cs)"
| "stripLeadingSlash [] = []"

text \<open>\<open>typeof v === "object"\<close>: objects, arrays and \<open>null\<close>.\<close>

fun typeofObject :: "jsval \<Rightarrow> bool" where
  "typeofObject JNull = True"
| "typeofObject (JArr xs) = True"
| "typeofObject (JObj kvs) = True"
| "typeofObject _ = False"

text \<open>Lines 47 to 50: \<open>inp\<close>.\<close>

definition inputRecord :: "jsval \<Rightarrow> jsval" where
  "inputRecord input = (if input \<noteq> JNull \<and> typeofObject input then input else JObj [])"

text \<open>Line 54: \<open>String(inp[field] ?? "")\<close>, the raw value of the summary.\<close>

definition rawValue :: "jsrt \<Rightarrow> jsval \<Rightarrow> string \<Rightarrow> error + string" where
  "rawValue rt input field =
     (let v = jsget (inputRecord input) field
      in toStr rt (if nullish v then JStr [] else v))"

text \<open>
  The table is read for its own keys: a tool name that \<open>Object.prototype\<close> defines
  (\<open>constructor\<close>, \<open>__proto__\<close> and the like) would find the inherited member in the code,
  and is not modelled. \<open>cwd\<close> is \<open>None\<close> when the argument is left out.
\<close>

definition summarizeToolUse :: "jsrt \<Rightarrow> string \<Rightarrow> jsval \<Rightarrow> string option \<Rightarrow> error + string" where
  "summarizeToolUse rt toolName input cwd =
     (let inp = inputRecord input;
          field = map_of TOOL_SUMMARY_FIELDS toolName
      in if field \<noteq> None \<and> field \<noteq> Some []
         then (case rawValue rt input (the field) of
                 Inl e \<Rightarrow> Inl e
               | Inr value \<Rightarrow>
                   Inr (toolName @ '': '' @
                        (if cwd \<noteq> None \<and> cwd \<noteq> Some [] \<and> prefix (the cwd) value
                         then stripLeadingSlash (drop (length (the cwd)) value)
                         else value)))
         else if toolName = ''Task''
         then (let d = jsget inp ''description''; t = jsget inp ''subagent_type''
               in (case toStr rt (if \<not> nullish d then d
                                  else if \<not> nullish t then t else JStr ''subagent'') of
                     Inl e \<Rightarrow> Inl e
                   | Inr label \<Rightarrow> Inr (''Task: '' @ label)))
         else Inr (shortToolName toolName @ '': ''))"

subsection \<open>\<open>processAgentMessage\<close>\<close>

datatype activity_type = AT_status | AT_tool_use | AT_text | AT_result | AT_error

text \<open>
  An optional field is \<open>None\<close> when the object literal does not write it, and
  \<open>Some JUndefined\<close> when it writes \<open>undefined\<close>.
\<close>

record ActivityEntry =
  timestamp :: int
  atype :: activity_type
  summary :: jsval
  detail :: "jsval option"
  isSubagent :: "jsval option"

record SuccessResult =
  sr_result :: jsval
  costUsd :: jsval
  durationMs :: jsval
  numTurns :: jsval

record AgentMessageResult =
  activities :: "ActivityEntry list"
  sessionId :: "jsval option"
  successResult :: "SuccessResult option"
  errorMessage :: "jsval option"

definition only_activities :: "ActivityEntry list \<Rightarrow> AgentMessageResult" where
  "only_activities acts =
     \<lparr>activities = acts, sessionId = None, successResult = None, errorMessage = None\<rparr>"

text \<open>
  The call at line 156 passes \<open>block.name\<close> unchecked. A string goes to
  \<open>summarizeToolUse\<close> as it is. Any other value is first turned into a property key by
  the table lookup; if that key is in the table the summary is the one of that key, and
  otherwise the value reaches \<open>name.startsWith\<close>, which only strings have (keys that
  \<open>Object.prototype\<close> defines apart, as above).
\<close>

definition summarizeToolUse_untyped ::
  "jsrt \<Rightarrow> jsval \<Rightarrow> jsval \<Rightarrow> string option \<Rightarrow> error + string" where
  "summarizeToolUse_untyped rt name input cwd =
     (case name of
        JStr toolName \<Rightarrow> summarizeToolUse rt toolName input cwd
      | _ \<Rightarrow>
          (case toStr rt name of
             Inl e \<Rightarrow> Inl e
           | Inr k \<Rightarrow>
               if map_of TOOL_SUMMARY_FIELDS k \<noteq> None then summarizeToolUse rt k input cwd
               else Inl TypeError))"

text \<open>The loop over the content blocks (lines 151 to 168).\<close>

fun processBlocks ::
  "jsrt \<Rightarrow> string option \<Rightarrow> bool \<Rightarrow> jsval list \<Rightarrow> ActivityEntry list \<Rightarrow> error + ActivityEntry list"
  where
  "processBlocks rt cwd isSub [] acts = Inr acts"
| "processBlocks rt cwd isSub (block # rest) acts =
     (if nullish block then Inl TypeError
      else if jsget block ''type'' = JStr ''tool_use'' \<and> hasProp block ''name''
      then (case summarizeToolUse_untyped rt (jsget block ''name'') (jsget block ''input'') cwd of
              Inl e \<Rightarrow> Inl e
            | Inr s \<Rightarrow>
                processBlocks rt cwd isSub rest
                  (acts @ [\<lparr>timestamp = now rt (length acts), atype = AT_tool_use,
                            summary = JStr s, detail = None,
                            isSubagent = Some (if isSub then JBool True else JUndefined)\<rparr>]))
      else if jsget block ''type'' = JStr ''text'' \<and> hasProp block ''text''
      then (case slice200 (jsget block ''text'') of
              Inl e \<Rightarrow> Inl e
            | Inr s \<Rightarrow>
                processBlocks rt cwd isSub rest
                  (acts @ [\<lparr>timestamp = now rt (length acts), atype = AT_text,
                            summary = s, detail = Some (jsget block ''text''),
                            isSubagent = Some (if isSub then JBool True else JUndefined)\<rparr>]))
      else processBlocks rt cwd isSub rest acts)"

text \<open>\<open>a || b\<close> on values.\<close>

definition orElse :: "jsval \<Rightarrow> jsval \<Rightarrow> jsval" where
  "orElse a b = (if truthy a then a else b)"

text \<open>Lines 122 to 125: the text in parentheses of a sub-agent notification.\<close>

definition durationStr :: "jsrt \<Rightarrow> jsval \<Rightarrow> error + string" where
  "durationStr rt usage =
     (if truthy usage
      then (case roundSecondsText rt (jsget usage ''duration_ms'') of
              Inl e \<Rightarrow> Inl e
            | Inr secs \<Rightarrow>
                (case toStr rt (jsget usage ''tool_uses'') of
                   Inl e \<Rightarrow> Inl e
                 | Inr tools \<Rightarrow> Inr (secs @ ''s, '' @ tools @ '' tools'')))
      else Inr [])"

definition parenthesised :: "string \<Rightarrow> string" where
  "parenthesised d = (if d \<noteq> [] then '' ('' @ d @ '')'' else [])"

definition processAgentMessage ::
  "jsrt \<Rightarrow> jsval \<Rightarrow> string option \<Rightarrow> error + AgentMessageResult" where
  "processAgentMessage rt message cwd =
     (if nullish message then Inl TypeError
      else if jsget message ''type'' = JStr ''system'' \<and> jsget message ''subtype'' = JStr ''init''
      then Inr \<lparr>activities =
                  [\<lparr>timestamp = now rt 0, atype = AT_status, summary = JStr ''Agent started'',
                    detail = None, isSubagent = None\<rparr>],
                sessionId = Some (jsget message ''session_id''),
                successResult = None, errorMessage = None\<rparr>
      else if jsget message ''type'' = JStr ''system''
              \<and> jsget message ''subtype'' = JStr ''task_started''
      then (case toStr rt (orElse (jsget message ''description'')
                             (orElse (jsget message ''task_type'') (JStr ''subagent''))) of
              Inl e \<Rightarrow> Inl e
            | Inr what \<Rightarrow>
                Inr (only_activities
                  [\<lparr>timestamp = now rt 0, atype = AT_status,
                    summary = JStr (''Spawned: '' @ what),
                    detail = None, isSubagent = Some (JBool True)\<rparr>]))
      else if jsget message ''type'' = JStr ''system''
              \<and> jsget message ''subtype'' = JStr ''task_notification''
      then (case durationStr rt (jsget message ''usage'') of
              Inl e \<Rightarrow> Inl e
            | Inr d \<Rightarrow>
                if jsget message ''status'' = JStr ''completed''
                then Inr (only_activities
                  [\<lparr>timestamp = now rt 0, atype = AT_result,
                    summary = JStr (''Subagent completed'' @ parenthesised d),
                    detail = Some (orElse (jsget message ''summary'') JUndefined),
                    isSubagent = Some (JBool True)\<rparr>])
                else (case toStr rt (jsget message ''status'') of
                        Inl e \<Rightarrow> Inl e
                      | Inr st \<Rightarrow>
                          Inr (only_activities
                            [\<lparr>timestamp = now rt 0, atype = AT_error,
                              summary = JStr (''Subagent '' @ st @ parenthesised d),
                              detail = Some (orElse (jsget message ''summary'') JUndefined),
                              isSubagent = Some (JBool True)\<rparr>])))
      else if jsget message ''type'' = JStr ''assistant'' \<and> truthy (jsget message ''message'')
      then (let isSub = (\<not> nullish (jsget message ''parent_tool_use_id''));
                content = jsget (jsget message ''message'') ''content''
            in (case content of
                  JArr blocks \<Rightarrow>
                    (case processBlocks rt cwd isSub blocks [] of
                       Inl e \<Rightarrow> Inl e
                     | Inr acts \<Rightarrow> Inr (only_activities acts))
                | _ \<Rightarrow> Inr (only_activities [])))
      else if jsget message ''type'' = JStr ''result''
      then (if jsget message ''subtype'' = JStr ''success''
            then Inr \<lparr>activities =
                        [\<lparr>timestamp = now rt 0, atype = AT_result,
                          summary = JStr ''Agent completed successfully'',
                          detail = None, isSubagent = None\<rparr>],
                      sessionId = None,
                      successResult =
                        Some \<lparr>sr_result = jsget message ''result'',
                              costUsd = jsget message ''total_cost_usd'',
                              durationMs = jsget message ''duration_ms'',
                              numTurns = jsget message ''num_turns''\<rparr>,
                      errorMessage = None\<rparr>
            else (case (if lengthTruthy (jsget message ''errors'')
                        then map_sum id JStr (joinCall rt (jsget message ''errors'') ''; '')
                        else Inr (jsget message ''subtype'')) of
                    Inl e \<Rightarrow> Inl e
                  | Inr errMsg \<Rightarrow>
                      (case slice200 errMsg of
                         Inl e \<Rightarrow> Inl e
                       | Inr sliced \<Rightarrow>
                           (case toStr rt sliced of
                              Inl e \<Rightarrow> Inl e
                            | Inr shown \<Rightarrow>
                                Inr \<lparr>activities =
                                       [\<lparr>timestamp = now rt 0, atype = AT_error,
                                         summary = JStr (''Agent error: '' @ shown),
                                         detail = None, isSubagent = None\<rparr>],
                                     sessionId = None, successResult = None,
                                     errorMessage = Some errMsg\<rparr>))))
      else Inr (only_activities []))"

section \<open>White space\<close>

text \<open>
  The characters that \<open>trim\<close> removes and \<open>\<bslash>s\<close> matches, as far as one \<^typ>\<open>char\<close> can
  hold them: tab, line feed, vertical tab, form feed, carriage return, space and the
  no-break space.
\<close>

definition isSpace :: "char \<Rightarrow> bool" where
  "isSpace c \<longleftrightarrow>
     c = CHR 0x09 \<or> c = CHR 0x0A \<or> c = CHR 0x0B \<or> c = CHR 0x0C \<or> c = CHR 0x0D
     \<or> c = CHR 0x20 \<or> c = CHR 0xA0"

definition trim :: "string \<Rightarrow> string" where
  "trim s = rev (dropWhile isSpace (rev (dropWhile isSpace s)))"

section \<open>Worktrees: \<open>worktree.ts\<close>\<close>

text \<open>
  The surroundings: \<open>Bun.spawnSync\<close> (exit code and standard error of a command run in a
  directory, given the commands run before it), \<open>existsSync\<close> (given the same history)
  and \<open>path.resolve\<close>. The subprocess is taken to start; what is recorded is every
  command started and every line logged.
\<close>

type_synonym command = "string \<times> string list"

record sys =
  spawnSync :: "command list \<Rightarrow> string \<Rightarrow> string list \<Rightarrow> int \<times> string"
  existsSync :: "command list \<Rightarrow> string \<Rightarrow> bool"
  resolve :: "string list \<Rightarrow> string"

datatype log_level = Info | Warn

record proc_world =
  spawned :: "command list"
  logged :: "(log_level \<times> string) list"

text \<open>
  Modelled from the spec: \<open>info\<close> and \<open>warn\<close> of \<open>./logger\<close>, which is not among the sources.
  The spec has cleanup failures logged and not raised: each call appends one line to the
  log and does nothing else.
\<close>

definition info :: "string \<Rightarrow> proc_world \<Rightarrow> proc_world" where
  "info msg w = w\<lparr>logged := logged w @ [(Info, msg)]\<rparr>"

definition warn :: "string \<Rightarrow> proc_world \<Rightarrow> proc_world" where
  "warn msg w = w\<lparr>logged := logged w @ [(Warn, msg)]\<rparr>"

definition worktreePath :: "sys \<Rightarrow> string \<Rightarrow> string \<Rightarrow> string" where
  "worktreePath sy projectPath name =
     resolve sy [projectPath, ''.claude'', ''worktrees'', name]"

text \<open>\<open>gitSync\<close>: the trimmed standard error on failure, \<open>None\<close> (\<open>undefined\<close>) on success.\<close>

definition gitSync :: "sys \<Rightarrow> string \<Rightarrow> string list \<Rightarrow> proc_world \<Rightarrow> proc_world \<times> string option" where
  "gitSync sy projectPath args w =
     (let (exitCode, stderr) = spawnSync sy (spawned w) projectPath (''git'' # args)
      in (w\<lparr>spawned := spawned w @ [(projectPath, ''git'' # args)]\<rparr>,
          if exitCode \<noteq> 0 then Some (trim stderr) else None))"

definition gitPrune :: "sys \<Rightarrow> string \<Rightarrow> proc_world \<Rightarrow> proc_world" where
  "gitPrune sy projectPath w = fst (gitSync sy projectPath [''worktree'', ''prune''] w)"

text \<open>\<open>if (err)\<close> on a \<open>string | undefined\<close>: a string that is not empty.\<close>

fun reported :: "string option \<Rightarrow> bool" where
  "reported None = False"
| "reported (Some e) = (e \<noteq> [])"

text \<open>
  \<open>opts\<close> is \<open>None\<close> when the argument is left out; \<open>Some None\<close> is an options object
  without \<open>keepBranch\<close>.
\<close>

fun keepBranch :: "bool option option \<Rightarrow> bool" where
  "keepBranch (Some (Some b)) = b"
| "keepBranch _ = False"

definition quoted :: "string \<Rightarrow> string" where
  "quoted s = [CHR 0x27] @ s @ [CHR 0x27]"

text \<open>
  \<open>removeWorktree\<close> has no \<open>throw\<close>, and \<open>gitSync\<close> hands a failed command back as a
  value: the model returns the new state and has no error result, unlike
  \<open>createWorktree\<close> below, which raises when \<open>git worktree add\<close> fails.
\<close>

definition removeWorktree ::
  "sys \<Rightarrow> string \<Rightarrow> string \<Rightarrow> bool option option \<Rightarrow> proc_world \<Rightarrow> proc_world" where
  "removeWorktree sy projectPath name opts w0 =
     (let wtPath = worktreePath sy projectPath name;
          w1 = info (''Removing worktree: '' @ name) w0;
          (w2, wtErr) = gitSync sy projectPath [''worktree'', ''remove'', wtPath, ''--force''] w1;
          w3 = (if reported wtErr
                then warn (''Failed to remove worktree '' @ quoted name @ '': '' @ the wtErr) w2
                else w2);
          w4 = gitPrune sy projectPath w3
      in if \<not> keepBranch opts
         then (let branch = ''worktree-'' @ name;
                   (w5, brErr) = gitSync sy projectPath [''branch'', ''-D'', branch] w4
               in if reported brErr
                  then warn (''Failed to delete branch '' @ quoted branch @ '': '' @ the brErr) w5
                  else w5)
         else w4)"

text \<open>\<open>fromBranch\<close> is \<open>None\<close> when the argument is left out; the empty string is falsy.\<close>

definition createWorktree ::
  "sys \<Rightarrow> string \<Rightarrow> string \<Rightarrow> string option \<Rightarrow> proc_world \<Rightarrow> proc_world \<times> (error + string)" where
  "createWorktree sy projectPath name fromBranch w0 =
     (let wtPath = worktreePath sy projectPath name;
          given = (fromBranch \<noteq> None \<and> fromBranch \<noteq> Some []);
          w1 = gitPrune sy projectPath w0;
          w2 = (if existsSync sy (spawned w1) wtPath
                then removeWorktree sy projectPath name (Some (Some given))
                       (warn (''Stale worktree found at '' @ wtPath @ '', removing...'') w1)
                else w1)
      in if given
         then (let (w3, _) = gitSync sy projectPath [''fetch'', ''origin'', the fromBranch] w2;
                   w4 = info (''Creating worktree: '' @ name @ '' (from branch ''
                                @ the fromBranch @ '')'') w3;
                   (w5, err) = gitSync sy projectPath
                                 [''worktree'', ''add'', wtPath, the fromBranch] w4
               in if reported err
                  then (w5, Inl (Error (''Failed to create worktree '' @ quoted name
                                          @ '': '' @ the err)))
                  else (w5, Inr wtPath))
         else (let branch = ''worktree-'' @ name;
                   (w3, _) = gitSync sy projectPath [''branch'', ''-D'', branch] w2;
                   w4 = info (''Creating worktree: '' @ name) w3;
                   (w5, err) = gitSync sy projectPath
                                 [''worktree'', ''add'', wtPath, ''-b'', branch] w4
               in if reported err
                  then (w5, Inl (Error (''Failed to create worktree '' @ quoted name
                                          @ '': '' @ the err)))
                  else (w5, Inr wtPath)))"

section \<open>Prompt templates: \<open>prompt.ts\<close>\<close>

subsection \<open>\<open>sanitizePromptValue\<close>\<close>

definition isNewline :: "char \<Rightarrow> bool" where
  "isNewline c \<longleftrightarrow> c = CHR 0x0D \<or> c = CHR 0x0A"

text \<open>\<open>.replace(/[\<bslash>r\<bslash>n]+/g, " ")\<close>: every run of line breaks becomes one space.\<close>

function collapseNewlines :: "string \<Rightarrow> string" where
  "collapseNewlines [] = []"
| "collapseNewlines (c # cs) =
     (if isNewline c then CHR 0x20 # collapseNewlines (dropWhile isNewline cs)
      else c # collapseNewlines cs)"
  by pat_completeness auto
termination
  by (relation "measure length") (auto simp: length_dropWhile_le less_Suc_eq_le)

text \<open>
  \<open>.replace(/^\<bslash>s*#+\<bslash>s*/, "")\<close>: white space, one or more \<open>#\<close> and white space again are
  removed from the start; without a \<open>#\<close> there the string stays.
\<close>

definition stripHeading :: "string \<Rightarrow> string" where
  "stripHeading s =
     (let t = dropWhile isSpace s
      in if t \<noteq> [] \<and> hd t = CHR ''#''
         then dropWhile isSpace (dropWhile (\<lambda>c. c = CHR ''#'') t)
         else s)"

definition sanitizePromptValue :: "string \<Rightarrow> string" where
  "sanitizePromptValue v = trim (stripHeading (collapseNewlines v))"

subsection \<open>\<open>replaceAll\<close> with a string pattern\<close>

text \<open>
  The replacement text is a template: \<open>$$\<close> stands for a dollar sign, \<open>$&\<close> for the
  matched text, and a dollar sign followed by a backquote or a quote for the text before or
  after the match. There are no capture groups, so every other dollar sign is literal.
\<close>

fun expand :: "string \<Rightarrow> string \<Rightarrow> string \<Rightarrow> string \<Rightarrow> string" where
  "expand matched pre post (c # d # rest) =
     (if c = CHR ''$'' \<and> d = CHR ''$'' then CHR ''$'' # expand matched pre post rest
      else if c = CHR ''$'' \<and> d = CHR ''&'' then matched @ expand matched pre post rest
      else if c = CHR ''$'' \<and> d = CHR 0x60 then pre @ expand matched pre post rest
      else if c = CHR ''$'' \<and> d = CHR 0x27 then post @ expand matched pre post rest
      else c # expand matched pre post (d # rest))"
| "expand matched pre post [c] = [c]"
| "expand matched pre post [] = []"

text \<open>Matches are found from left to right and do not overlap.\<close>

function replaceAll_go :: "string \<Rightarrow> string \<Rightarrow> string \<Rightarrow> string \<Rightarrow> string" where
  "replaceAll_go pat rep pre s =
     (if pat \<noteq> [] \<and> prefix pat s
      then expand pat pre (drop (length pat) s) rep
           @ replaceAll_go pat rep (pre @ pat) (drop (length pat) s)
      else (case s of
              [] \<Rightarrow> []
            | c # cs \<Rightarrow> c # replaceAll_go pat rep (pre @ [c]) cs))"
  by pat_completeness auto
termination
  by (relation "measure (\<lambda>(pat, rep, pre, s). length s)") (auto elim!: prefixE)

declare replaceAll_go.simps [simp del]

text \<open>The empty pattern matches before every character and at the end.\<close>

fun replaceAll_empty :: "string \<Rightarrow> string \<Rightarrow> string \<Rightarrow> string" where
  "replaceAll_empty rep pre [] = expand [] pre [] rep"
| "replaceAll_empty rep pre (c # cs) =
     expand [] pre (c # cs) rep @ c # replaceAll_empty rep (pre @ [c]) cs"

definition replaceAll :: "string \<Rightarrow> string \<Rightarrow> string \<Rightarrow> string" where
  "replaceAll s pat rep =
     (if pat = [] then replaceAll_empty rep [] s else replaceAll_go pat rep [] s)"

subsection \<open>\<open>renderPrompt\<close>\<close>

text \<open>
  \<open>vars\<close> is the list that \<open>Object.entries(vars)\<close> yields, in its order. The loop of lines
  40 to 42 carries \<open>result\<close>.
\<close>

fun renderPrompt_loop :: "(string \<times> string) list \<Rightarrow> string \<Rightarrow> string" where
  "renderPrompt_loop [] result = result"
| "renderPrompt_loop ((key, value) # rest) result =
     renderPrompt_loop rest
       (replaceAll result (''{{'' @ key @ ''}}'') (sanitizePromptValue value))"

definition renderPrompt :: "string \<Rightarrow> (string \<times> string) list \<Rightarrow> string" where
  "renderPrompt template vars = renderPrompt_loop vars template"

section \<open>Scenarios\<close>

text \<open>Concrete services, worlds and responses on which the theorems below are run.\<close>

definition ex_world :: gh_world where
  "ex_world = \<lparr>GITHUB_TOKEN = Some ''ghp_x'', client = False, requests = [], retry_warnings = []\<rparr>"

definition ex_pull :: pull where
  "ex_pull = \<lparr>pr_merged = False, pr_mergeable = Some True, pr_head_ref = ''fix'', pr_head_sha = ''abc''\<rparr>"

definition service :: "pull \<Rightarrow> combined_status \<Rightarrow> check_run list \<Rightarrow> github" where
  "service pr st checks =
     \<lparr>pulls_get = (\<lambda>sent owner repo n. Inr pr),
      getCombinedStatusForRef = (\<lambda>sent owner repo sha. Inr st),
      checks_listForRef = (\<lambda>sent owner repo sha. Inr checks)\<rparr>"

definition ex_pending :: combined_status where
  "ex_pending = \<lparr>cs_state = ''pending'', cs_statuses = []\<rparr>"

definition ex_lint :: check_run where
  "ex_lint = \<lparr>c_name = ''lint'', c_status = ''completed'', c_conclusion = Some ''failure''\<rparr>"

definition ex_build :: check_run where
  "ex_build = \<lparr>c_name = ''build'', c_status = ''in_progress'', c_conclusion = None\<rparr>"

definition flaky_service :: "pull \<Rightarrow> github" where
  "flaky_service pr =
     \<lparr>pulls_get = (\<lambda>sent owner repo n. if sent = [] then Inl (HttpError 503) else Inr pr),
      getCombinedStatusForRef = (\<lambda>sent owner repo sha. Inl (HttpError 404)),
      checks_listForRef = (\<lambda>sent owner repo sha. Inl (HttpError 404))\<rparr>"

definition ex_merged_pull :: pull where
  "ex_merged_pull = \<lparr>pr_merged = True, pr_mergeable = Some True, pr_head_ref = ''fix'', pr_head_sha = ''abc''\<rparr>"

definition ex_failed :: combined_status where
  "ex_failed = \<lparr>cs_state = ''failure'', cs_statuses =
      [\<lparr>s_state = ''error'', s_context = ''ci/deploy'', s_description = None\<rparr>,
       \<lparr>s_state = ''success'', s_context = ''ci/docs'', s_description = Some ''ok''\<rparr>,
       \<lparr>s_state = ''failure'', s_context = ''ci/unit'', s_description = Some ''3 tests failed''\<rparr>]\<rparr>"

definition ex_e2e :: check_run where
  "ex_e2e = \<lparr>c_name = ''e2e'', c_status = ''completed'', c_conclusion = Some ''timed_out''\<rparr>"

definition ex_world1 :: gh_world where
  "ex_world1 = \<lparr>GITHUB_TOKEN = Some ''ghp_x'', client = True, requests = [], retry_warnings = []\<rparr>"

definition ex_world2 :: gh_world where
  "ex_world2 = \<lparr>GITHUB_TOKEN = Some ''ghp_x'', client = True,
                 requests = [PullsGet ''o'' ''r'' 7], retry_warnings = []\<rparr>"

definition ex_world3 :: gh_world where
  "ex_world3 = \<lparr>GITHUB_TOKEN = Some ''ghp_x'', client = True,
                 requests = [PullsGet ''o'' ''r'' 7, GetCombinedStatusForRef ''o'' ''r'' ''abc''],
                 retry_warnings = []\<rparr>"

definition ex_world4 :: gh_world where
  "ex_world4 = \<lparr>GITHUB_TOKEN = Some ''ghp_x'', client = True,
                 requests = [PullsGet ''o'' ''r'' 7, GetCombinedStatusForRef ''o'' ''r'' ''abc'',
                             ChecksListForRef ''o'' ''r'' ''abc''],
                 retry_warnings = []\<rparr>"

definition flaky_world2 :: gh_world where
  "flaky_world2 = \<lparr>GITHUB_TOKEN = Some ''ghp_x'', client = True,
                 requests = [PullsGet ''o'' ''r'' 7, PullsGet ''o'' ''r'' 7],
                 retry_warnings = [(''getPR #7'', 1)]\<rparr>"

definition rt0 :: jsrt where
  "rt0 = \<lparr>now = (\<lambda>k. 1700000000000 + int k), numText = (\<lambda>q. ''0''),
          roundSecondsText = (\<lambda>v. Inr ''0'')\<rparr>"

definition ex_read_input :: jsval where
  "ex_read_input = JObj [(''file_path'', JStr ''/work/work/src/app.ts'')]"

definition ex_error_message :: jsval where
  "ex_error_message =
     JObj [(''type'', JStr ''result''), (''subtype'', JStr ''error_during_execution''),
           (''errors'', JArr [JStr ''tool failed'', JStr ''budget exceeded''])]"

definition ex_unknown_message :: jsval where
  "ex_unknown_message = JObj [(''type'', JStr ''stream_event''), (''event'', JObj [])]"

definition failing_git :: sys where
  "failing_git =
     \<lparr>spawnSync = (\<lambda>ran dir argv. (128, ''fatal: not a git repository'' @ [CHR 0x0A])),
      existsSync = (\<lambda>ran path. False),
      resolve = join ''/''\<rparr>"

definition silent_git :: sys where
  "silent_git =
     \<lparr>spawnSync = (\<lambda>ran dir argv. (137, [])),
      existsSync = (\<lambda>ran path. False),
      resolve = join ''/''\<rparr>"

definition quiet_world :: proc_world where
  "quiet_world = \<lparr>spawned = [], logged = []\<rparr>"

definition ex_green :: combined_status where
  "ex_green = \<lparr>cs_state = ''success'', cs_statuses = []\<rparr>"

definition ex_unit :: check_run where
  "ex_unit = \<lparr>c_name = ''unit'', c_status = ''completed'', c_conclusion = Some ''success''\<rparr>"

definition ex_docs :: check_run where
  "ex_docs = \<lparr>c_name = ''docs'', c_status = ''completed'', c_conclusion = Some ''skipped''\<rparr>"

section \<open>Properties of \<open>getPRStatus\<close>\<close>

lemma push_status_failures_eq:
  "push_status_failures ss acc = acc @ map status_detail (filter status_failed ss)"
  by (induction ss arbitrary: acc) simp_all

lemma push_check_failures_eq:
  "push_check_failures cs acc = acc @ map check_detail (filter check_failed cs)"
  by (induction cs arbitrary: acc) simp_all

lemma aggregate_ciStatus:
  "ciStatus (aggregate pr st checks) =
     (if cs_state st = ''failure'' \<or> list_ex check_failed checks then CI_failure
      else if cs_state st = ''success'' \<and> list_all (\<lambda>c. c_status c = ''completed'') checks
              \<and> list_all (\<lambda>c. c_status c = ''completed'' \<and>
                        (c_conclusion c = Some ''success'' \<or> c_conclusion c = Some ''skipped''))
              checks
      then CI_success else CI_pending)"
  by (simp add: aggregate_def Let_def split: prod.splits)

lemma aggregate_merged: "merged (aggregate pr st checks) = False"
  by (simp add: aggregate_def Let_def split: prod.splits)

lemma getPRStatus_unmerged:
  assumes "getGitHubClient w0 = (w1, Inr ())"
    and "fetchPR gh owner repo prNumber w1 = (w2, Inr pr)"
    and "\<not> pr_merged pr"
    and "fetchStatus gh owner repo prNumber (pr_head_sha pr) w2 = (w3, Inr st)"
    and "fetchChecks gh owner repo prNumber (pr_head_sha pr) w3 = (w4, Inr checks)"
  shows "getPRStatus gh owner repo prNumber w0 = (w4, Inr (aggregate pr st checks))"
  using assms by (simp add: getPRStatus_def)

text \<open>
  Conversely, every result of \<open>getPRStatus\<close> that is not merged comes from three fetches
  that succeeded, so the premises of the theorems below cover all such results.
\<close>

lemma getPRStatus_unmerged_only:
  assumes "getPRStatus gh owner repo prNumber w0 = (w', Inr r)" and "\<not> merged r"
  shows "\<exists>w1 w2 w3 pr st checks.
           getGitHubClient w0 = (w1, Inr ())
           \<and> fetchPR gh owner repo prNumber w1 = (w2, Inr pr) \<and> \<not> pr_merged pr
           \<and> fetchStatus gh owner repo prNumber (pr_head_sha pr) w2 = (w3, Inr st)
           \<and> fetchChecks gh owner repo prNumber (pr_head_sha pr) w3 = (w', Inr checks)
           \<and> r = aggregate pr st checks"
  using assms
  by (auto simp: getPRStatus_def merged_result_def Let_def
      split: prod.splits sum.splits if_splits)

text \<open>
  The other two examples of the spec: all green gives \<open>success\<close>; nothing failed and
  something still running gives \<open>pending\<close>.
\<close>

lemma aggregate_examples:
  "ciStatus (aggregate ex_pull ex_green [ex_unit, ex_docs]) = CI_success"
  "ciStatus (aggregate ex_pull ex_pending [ex_build, ex_build]) = CI_pending"
  "ciStatus (aggregate ex_pull ex_green [ex_unit, ex_build]) = CI_pending"
  by (simp_all add: aggregate_ciStatus ex_green_def ex_pending_def ex_unit_def ex_docs_def
      ex_build_def check_failed_def)

text \<open>
  GitHub sets the combined state to \<open>failure\<close> exactly when one of its entries is
  \<open>failure\<close> or \<open>error\<close>. For such a response the verdict is \<open>failure\<close> exactly when a
  failing entry is present in one of the two lists.
\<close>

lemma aggregate_failure_by_entries:
  assumes "cs_state st = ''failure'' \<longleftrightarrow> (\<exists>s\<in>set (cs_statuses st). status_failed s)"
  shows "ciStatus (aggregate pr st checks) = CI_failure \<longleftrightarrow>
           (\<exists>s\<in>set (cs_statuses st). status_failed s) \<or> (\<exists>c\<in>set checks. check_failed c)"
  using assms by (simp add: aggregate_ciStatus list_ex_iff)

text \<open>
  Claim C1. When the three requests succeed and the pull request is not merged,
  \<open>getPRStatus\<close> (the listing with retries) returns a verdict that is \<open>failure\<close> exactly
  when the legacy combined status reports \<open>failure\<close> or some check run has the conclusion
  \<open>failure\<close> or \<open>timed_out\<close>; \<open>success\<close> exactly when the legacy state is \<open>success\<close>, every
  check run is \<open>completed\<close> and every completed check run concluded \<open>success\<close> or
  \<open>skipped\<close>; and \<open>pending\<close> in every other case.
\<close>

theorem getPRStatus_settle_rule:
  assumes "getGitHubClient w0 = (w1, Inr ())"
    and "fetchPR gh owner repo prNumber w1 = (w2, Inr pr)"
    and "\<not> pr_merged pr"
    and "fetchStatus gh owner repo prNumber (pr_head_sha pr) w2 = (w3, Inr st)"
    and "fetchChecks gh owner repo prNumber (pr_head_sha pr) w3 = (w4, Inr checks)"
  shows "\<exists>r. getPRStatus gh owner repo prNumber w0 = (w4, Inr r) \<and> \<not> merged r \<and>
     (ciStatus r = CI_failure \<longleftrightarrow>
        cs_state st = ''failure'' \<or>
        (\<exists>c\<in>set checks. c_conclusion c = Some ''failure'' \<or> c_conclusion c = Some ''timed_out'')) \<and>
     (ciStatus r = CI_success \<longleftrightarrow>
        cs_state st = ''success'' \<and> (\<forall>c\<in>set checks. c_status c = ''completed'') \<and>
        (\<forall>c\<in>set checks. c_status c = ''completed'' \<longrightarrow>
           c_conclusion c = Some ''success'' \<or> c_conclusion c = Some ''skipped'')) \<and>
     (ciStatus r = CI_pending \<longleftrightarrow>
        \<not> (cs_state st = ''failure'' \<or>
           (\<exists>c\<in>set checks. c_conclusion c = Some ''failure'' \<or> c_conclusion c = Some ''timed_out'')) \<and>
        \<not> (cs_state st = ''success'' \<and> (\<forall>c\<in>set checks. c_status c = ''completed'') \<and>
           (\<forall>c\<in>set checks. c_status c = ''completed'' \<longrightarrow>
              c_conclusion c = Some ''success'' \<or> c_conclusion c = Some ''skipped'')))"
proof -
  let ?r = "aggregate pr st checks"
  have run: "getPRStatus gh owner repo prNumber w0 = (w4, Inr ?r)"
    using assms by (rule getPRStatus_unmerged)
  have ex: "list_ex check_failed checks \<longleftrightarrow>
      (\<exists>c\<in>set checks. c_conclusion c = Some ''failure'' \<or> c_conclusion c = Some ''timed_out'')"
    by (simp add: list_ex_iff check_failed_def)
  have al: "(list_all (\<lambda>c. c_status c = ''completed'') checks
              \<and> list_all (\<lambda>c. c_status c = ''completed'' \<and>
                        (c_conclusion c = Some ''success'' \<or> c_conclusion c = Some ''skipped''))
              checks) \<longleftrightarrow>
       ((\<forall>c\<in>set checks. c_status c = ''completed'') \<and>
        (\<forall>c\<in>set checks. c_status c = ''completed'' \<longrightarrow>
           c_conclusion c = Some ''success'' \<or> c_conclusion c = Some ''skipped''))"
    by (auto simp: list_all_iff)
  have nofail: "\<not> (\<exists>c\<in>set checks. c_conclusion c = Some ''failure'' \<or> c_conclusion c = Some ''timed_out'')"
    if "\<forall>c\<in>set checks. c_status c = ''completed''"
       "\<forall>c\<in>set checks. c_status c = ''completed'' \<longrightarrow>
           c_conclusion c = Some ''success'' \<or> c_conclusion c = Some ''skipped''"
    using that by auto
  have f: "ciStatus ?r = CI_failure \<longleftrightarrow>
        cs_state st = ''failure'' \<or>
        (\<exists>c\<in>set checks. c_conclusion c = Some ''failure'' \<or> c_conclusion c = Some ''timed_out'')"
    unfolding aggregate_ciStatus ex by simp
  have s: "ciStatus ?r = CI_success \<longleftrightarrow>
        cs_state st = ''success'' \<and> (\<forall>c\<in>set checks. c_status c = ''completed'') \<and>
        (\<forall>c\<in>set checks. c_status c = ''completed'' \<longrightarrow>
           c_conclusion c = Some ''success'' \<or> c_conclusion c = Some ''skipped'')"
    unfolding aggregate_ciStatus ex al using nofail by auto
  have p: "ciStatus ?r = CI_pending \<longleftrightarrow> \<not> ciStatus ?r = CI_failure \<and> \<not> ciStatus ?r = CI_success"
    by (cases "ciStatus ?r") simp_all
  show ?thesis
    apply (rule exI [of _ ?r])
    unfolding p
    unfolding f s
    using run aggregate_merged by simp
qed

lemma join_nonempty:
  "xs \<noteq> [] \<Longrightarrow> \<forall>x\<in>set xs. x \<noteq> [] \<Longrightarrow> join sep xs \<noteq> []"
  by (cases "(sep, xs)" rule: join.cases) simp_all

lemma status_detail_nonempty: "status_detail s \<noteq> []" "[] \<noteq> status_detail s"
  by (simp_all add: status_detail_def)

lemma check_detail_nonempty: "check_detail c \<noteq> []" "[] \<noteq> check_detail c"
  by (simp_all add: check_detail_def)

lemma aggregate_ciDetails:
  "ciDetails (aggregate pr st checks) =
     join [CHR 0x0A]
       (push_fallback (ciStatus (aggregate pr st checks))
          ((if cs_state st = ''failure''
            then map status_detail (filter status_failed (cs_statuses st)) else [])
           @ (if list_ex check_failed checks
              then map check_detail (filter check_failed checks) else [])))"
  by (simp add: aggregate_def Let_def push_status_failures_eq push_check_failures_eq
      split: prod.splits)

lemma filter_check_failed_empty:
  "\<not> list_ex check_failed checks \<Longrightarrow> filter check_failed checks = []"
  by (simp add: list_ex_iff filter_empty_conv)

lemma retry_loop_pulls_requests:
  "retry_loop (call_pulls_get gh owner repo n) label attempt left w = (w', res)
   \<Longrightarrow> \<exists>k. requests w' = requests w @ replicate k (PullsGet owner repo n)"
proof (induction left arbitrary: attempt w)
  case 0
  then show ?case
    by (subst (asm) retry_loop.simps)
       (auto simp: call_pulls_get_def split: sum.splits if_splits intro: exI [of _ 1])
next
  case (Suc left)
  let ?w1 = "w\<lparr>requests := requests w @ [PullsGet owner repo n]\<rparr>"
  show ?case
  proof (cases "pulls_get gh (requests w) owner repo n")
    case (Inr v)
    with Suc.prems have "w' = ?w1"
      by (subst (asm) retry_loop.simps) (simp add: call_pulls_get_def)
    then show ?thesis by (auto intro: exI [of _ 1])
  next
    case (Inl e)
    show ?thesis
    proof (cases "isTransient e")
      case False
      with Inl Suc.prems have "w' = ?w1"
        by (subst (asm) retry_loop.simps) (simp add: call_pulls_get_def)
      then show ?thesis by (auto intro: exI [of _ 1])
    next
      case True
      with Inl Suc.prems have
        "retry_loop (call_pulls_get gh owner repo n) label (Suc attempt) left
           (?w1\<lparr>retry_warnings := retry_warnings ?w1 @ [(label, attempt)]\<rparr>) = (w', res)"
        by (subst (asm) retry_loop.simps) (simp add: call_pulls_get_def)
      from Suc.IH [OF this] obtain k where
        "requests w' = requests w @ [PullsGet owner repo n] @ replicate k (PullsGet owner repo n)"
        by auto
      then have "requests w' = requests w @ replicate (Suc k) (PullsGet owner repo n)"
        by simp
      then show ?thesis by blast
    qed
  qed
qed

lemma getGitHubClient_requests:
  "getGitHubClient w = (w', res) \<Longrightarrow> requests w' = requests w"
  by (auto simp: getGitHubClient_def split: if_splits option.splits)

text \<open>
  Claim C6. When the fetched pull request is merged, \<open>getPRStatus\<close> returns
  \<open>{merged: true, mergeable: null, ciStatus: "success", ciDetails: ""}\<close> in the state
  left by the fetch of the pull request: every request sent during the call is a
  \<open>pulls.get\<close>, none asks for the combined status or the check runs.
\<close>

theorem getPRStatus_merged_short_circuit:
  assumes "getGitHubClient w0 = (w1, Inr ())"
    and "fetchPR gh owner repo prNumber w1 = (w2, Inr pr)"
    and "pr_merged pr"
  shows "getPRStatus gh owner repo prNumber w0 =
           (w2, Inr \<lparr>merged = True, mergeable = None, branch = pr_head_ref pr,
                     ciStatus = CI_success, ciDetails = []\<rparr>)
         \<and> (\<exists>k. requests w2 = requests w0 @ replicate k (PullsGet owner repo prNumber))"
proof
  show "getPRStatus gh owner repo prNumber w0 =
           (w2, Inr \<lparr>merged = True, mergeable = None, branch = pr_head_ref pr,
                     ciStatus = CI_success, ciDetails = []\<rparr>)"
    using assms by (simp add: getPRStatus_def merged_result_def)
  have "requests w1 = requests w0"
    using assms(1) by (rule getGitHubClient_requests)
  moreover have "\<exists>k. requests w2 = requests w1 @ replicate k (PullsGet owner repo prNumber)"
    using assms(2) unfolding fetchPR_def withRetry_def by (rule retry_loop_pulls_requests)
  ultimately show "\<exists>k. requests w2 = requests w0 @ replicate k (PullsGet owner repo prNumber)"
    by simp
qed

text \<open>
  Claim C7. When the verdict of \<open>getPRStatus\<close> is \<open>failure\<close>, \<open>ciDetails\<close> is not empty. It
  is the lines \<open>context: description\<close> (\<open>failed\<close> for a missing description) of the failed
  or errored legacy entries, collected when the legacy state is \<open>failure\<close>, followed by
  the lines \<open>name: conclusion\<close> of the check runs that concluded \<open>failure\<close> or
  \<open>timed_out\<close>, joined by line feeds; when there is no such line it is the fallback
  message.
\<close>

theorem getPRStatus_failure_details:
  assumes "getGitHubClient w0 = (w1, Inr ())"
    and "fetchPR gh owner repo prNumber w1 = (w2, Inr pr)"
    and "\<not> pr_merged pr"
    and "fetchStatus gh owner repo prNumber (pr_head_sha pr) w2 = (w3, Inr st)"
    and "fetchChecks gh owner repo prNumber (pr_head_sha pr) w3 = (w4, Inr checks)"
  shows "\<exists>r. getPRStatus gh owner repo prNumber w0 = (w4, Inr r) \<and>
     (ciStatus r = CI_failure \<longrightarrow>
        ciDetails r \<noteq> [] \<and>
        ciDetails r =
          join [CHR 0x0A]
            (let captured =
               (if cs_state st = ''failure''
                then map status_detail (filter status_failed (cs_statuses st)) else [])
               @ map check_detail (filter check_failed checks)
             in if captured = [] then [fallback_detail] else captured))"
proof -
  let ?r = "aggregate pr st checks"
  let ?captured = "(if cs_state st = ''failure''
                then map status_detail (filter status_failed (cs_statuses st)) else [])
               @ map check_detail (filter check_failed checks)"
  have run: "getPRStatus gh owner repo prNumber w0 = (w4, Inr ?r)"
    using assms by (rule getPRStatus_unmerged)
  have cap: "(if list_ex check_failed checks
              then map check_detail (filter check_failed checks) else [])
             = map check_detail (filter check_failed checks)"
    by (simp add: filter_check_failed_empty)
  have details: "ciDetails ?r = join [CHR 0x0A] (push_fallback (ciStatus ?r) ?captured)"
    unfolding aggregate_ciDetails cap ..
  have "ciDetails ?r \<noteq> [] \<and>
        ciDetails ?r = join [CHR 0x0A] (if ?captured = [] then [fallback_detail] else ?captured)"
    if fail: "ciStatus ?r = CI_failure"
  proof
    have pf: "push_fallback (ciStatus ?r) ?captured
                = (if ?captured = [] then [fallback_detail] else ?captured)"
      unfolding fail push_fallback_def by simp
    show eq: "ciDetails ?r
                = join [CHR 0x0A] (if ?captured = [] then [fallback_detail] else ?captured)"
      unfolding details pf ..
    have "\<forall>x\<in>set (if ?captured = [] then [fallback_detail] else ?captured). x \<noteq> []"
      by (auto simp: fallback_detail_def status_detail_nonempty check_detail_nonempty)
    moreover have "(if ?captured = [] then [fallback_detail] else ?captured) \<noteq> []"
      by simp
    ultimately show "ciDetails ?r \<noteq> []"
      unfolding eq by (rule join_nonempty [rotated])
  qed
  then show ?thesis
    using run by (auto simp: Let_def)
qed

lemma aggregate_settled_ciStatus:
  "ciStatus (aggregate_settled pr st checks) =
     (if \<not> (list_all (\<lambda>s. s_state s \<noteq> ''pending'') (cs_statuses st)
             \<and> list_all (\<lambda>c. c_status c = ''completed'') checks) then CI_pending
      else if (cs_state st = ''failure'' \<or> cs_state st = ''error'')
              \<or> list_ex check_failed checks then CI_failure
      else CI_success)"
  by (simp add: aggregate_settled_def Let_def split: prod.splits)

text \<open>The listing without retries does report a failure once everything is final.\<close>

lemma aggregate_settled_examples:
  "ciStatus (aggregate_settled ex_pull ex_pending [ex_lint]) = CI_failure"
  "ciStatus (aggregate_settled ex_pull ex_pending [ex_lint, ex_build]) = CI_pending"
  "ciStatus (aggregate_settled ex_pull ex_green [ex_unit, ex_docs]) = CI_success"
  by (simp_all add: aggregate_settled_ciStatus ex_green_def ex_pending_def ex_unit_def
      ex_docs_def ex_lint_def ex_build_def check_failed_def)

lemma getPRStatus_settled_unmerged:
  assumes "getGitHubClient w0 = (w1, Inr ())"
    and "call_pulls_get gh owner repo prNumber w1 = (w2, Inr pr)"
    and "\<not> pr_merged pr"
    and "call_getCombinedStatusForRef gh owner repo (pr_head_sha pr) w2 = (w3, Inr st)"
    and "call_checks_listForRef gh owner repo (pr_head_sha pr) w3 = (w4, Inr checks)"
  shows "getPRStatus_settled gh owner repo prNumber w0 = (w4, Inr (aggregate_settled pr st checks))"
  using assms by (simp add: getPRStatus_settled_def)

text \<open>
  Claim C2, amended. In the listing without retries, \<open>getPRStatus_settled\<close> answers
  \<open>pending\<close>, hence not \<open>failure\<close>, whenever a legacy status entry is still \<open>pending\<close> or a
  check run is not \<open>completed\<close>.
\<close>

theorem getPRStatus_settled_failure_only_when_settled:
  assumes "getGitHubClient w0 = (w1, Inr ())"
    and "call_pulls_get gh owner repo prNumber w1 = (w2, Inr pr)"
    and "\<not> pr_merged pr"
    and "call_getCombinedStatusForRef gh owner repo (pr_head_sha pr) w2 = (w3, Inr st)"
    and "call_checks_listForRef gh owner repo (pr_head_sha pr) w3 = (w4, Inr checks)"
  shows "\<exists>r. getPRStatus_settled gh owner repo prNumber w0 = (w4, Inr r) \<and>
     ((\<exists>s\<in>set (cs_statuses st). s_state s = ''pending'')
        \<or> (\<exists>c\<in>set checks. c_status c \<noteq> ''completed'')
      \<longrightarrow> ciStatus r = CI_pending)"
proof -
  let ?r = "aggregate_settled pr st checks"
  have run: "getPRStatus_settled gh owner repo prNumber w0 = (w4, Inr ?r)"
    using assms by (rule getPRStatus_settled_unmerged)
  have "ciStatus ?r = CI_pending"
    if "(\<exists>s\<in>set (cs_statuses st). s_state s = ''pending'')
        \<or> (\<exists>c\<in>set checks. c_status c \<noteq> ''completed'')"
    using that unfolding aggregate_settled_ciStatus by (auto simp: list_all_iff)
  with run show ?thesis by blast
qed

lemma ex_client: "getGitHubClient ex_world = (ex_world1, Inr ())"
  by (simp add: getGitHubClient_def ex_world_def ex_world1_def)

lemma ex_fetchPR: "fetchPR (service pr st checks) ''o'' ''r'' 7 ex_world1 = (ex_world2, Inr pr)"
  by (simp add: fetchPR_def withRetry_def retry_loop.simps call_pulls_get_def service_def
      ex_world1_def ex_world2_def)

lemma ex_fetchStatus:
  "fetchStatus (service pr st checks) ''o'' ''r'' 7 ''abc'' ex_world2 = (ex_world3, Inr st)"
  by (simp add: fetchStatus_def withRetry_def retry_loop.simps call_getCombinedStatusForRef_def
      service_def ex_world2_def ex_world3_def)

lemma ex_fetchChecks:
  "fetchChecks (service pr st checks) ''o'' ''r'' 7 ''abc'' ex_world3 = (ex_world4, Inr checks)"
  by (simp add: fetchChecks_def withRetry_def retry_loop.simps call_checks_listForRef_def
      service_def ex_world3_def ex_world4_def)

lemma ex_call_pulls: "call_pulls_get (service pr st checks) ''o'' ''r'' 7 ex_world1 = (ex_world2, Inr pr)"
  by (simp add: call_pulls_get_def service_def ex_world1_def ex_world2_def)

lemma ex_call_status:
  "call_getCombinedStatusForRef (service pr st checks) ''o'' ''r'' ''abc'' ex_world2 = (ex_world3, Inr st)"
  by (simp add: call_getCombinedStatusForRef_def service_def ex_world2_def ex_world3_def)

lemma ex_call_checks:
  "call_checks_listForRef (service pr st checks) ''o'' ''r'' ''abc'' ex_world3 = (ex_world4, Inr checks)"
  by (simp add: call_checks_listForRef_def service_def ex_world3_def ex_world4_def)

lemma ex_pull_simps: "pr_head_sha ex_pull = ''abc''" "\<not> pr_merged ex_pull"
  by (simp_all add: ex_pull_def)

text \<open>
  The instance of the spec: a legacy status of \<open>pending\<close> and one check run that is
  \<open>completed\<close> with \<open>failure\<close> give the verdict \<open>failure\<close>.
\<close>

theorem getPRStatus_settle_rule_witness:
  "getGitHubClient ex_world = (ex_world1, Inr ())
   \<and> fetchPR (service ex_pull ex_pending [ex_lint]) ''o'' ''r'' 7 ex_world1 = (ex_world2, Inr ex_pull)
   \<and> \<not> pr_merged ex_pull
   \<and> fetchStatus (service ex_pull ex_pending [ex_lint]) ''o'' ''r'' 7 (pr_head_sha ex_pull) ex_world2
       = (ex_world3, Inr ex_pending)
   \<and> fetchChecks (service ex_pull ex_pending [ex_lint]) ''o'' ''r'' 7 (pr_head_sha ex_pull) ex_world3
       = (ex_world4, Inr [ex_lint])
   \<and> cs_state ex_pending = ''pending''
   \<and> c_status ex_lint = ''completed'' \<and> c_conclusion ex_lint = Some ''failure''
   \<and> (\<exists>r. getPRStatus (service ex_pull ex_pending [ex_lint]) ''o'' ''r'' 7 ex_world
              = (ex_world4, Inr r)
          \<and> ciStatus r = CI_failure)"
proof -
  let ?gh = "service ex_pull ex_pending [ex_lint]"
  have h1: "getGitHubClient ex_world = (ex_world1, Inr ())" by (rule ex_client)
  have h2: "fetchPR ?gh ''o'' ''r'' 7 ex_world1 = (ex_world2, Inr ex_pull)" by (rule ex_fetchPR)
  have h3: "\<not> pr_merged ex_pull" by (simp add: ex_pull_simps)
  have h4: "fetchStatus ?gh ''o'' ''r'' 7 (pr_head_sha ex_pull) ex_world2 = (ex_world3, Inr ex_pending)"
    by (simp add: ex_pull_simps ex_fetchStatus)
  have h5: "fetchChecks ?gh ''o'' ''r'' 7 (pr_head_sha ex_pull) ex_world3 = (ex_world4, Inr [ex_lint])"
    by (simp add: ex_pull_simps ex_fetchChecks)
  have lint: "c_status ex_lint = ''completed''" "c_conclusion ex_lint = Some ''failure''"
    by (simp_all add: ex_lint_def)
  have pend: "cs_state ex_pending = ''pending''" by (simp add: ex_pending_def)
  from getPRStatus_settle_rule [OF h1 h2 h3 h4 h5] obtain r where
    r: "getPRStatus ?gh ''o'' ''r'' 7 ex_world = (ex_world4, Inr r)"
    and f: "ciStatus r = CI_failure \<longleftrightarrow>
        cs_state ex_pending = ''failure'' \<or>
        (\<exists>c\<in>set [ex_lint]. c_conclusion c = Some ''failure'' \<or> c_conclusion c = Some ''timed_out'')"
    by blast
  from f lint have "ciStatus r = CI_failure" by simp
  with r h1 h2 h3 h4 h5 lint pend show ?thesis by blast
qed

text \<open>
  Claim C2, as stated, fails on the listing with retries: with one check run failed and
  another still \<open>in_progress\<close>, \<open>getPRStatus\<close> reports \<open>failure\<close>.
\<close>

theorem getPRStatus_failure_before_settled_counterexample:
  "c_status ex_build = ''in_progress''
   \<and> getPRStatus (service ex_pull ex_pending [ex_lint, ex_build]) ''o'' ''r'' 7 ex_world
       = (ex_world4,
          Inr \<lparr>merged = False, mergeable = Some True, branch = ''fix'',
                ciStatus = CI_failure, ciDetails = ''lint: failure''\<rparr>)"
proof -
  have "getPRStatus (service ex_pull ex_pending [ex_lint, ex_build]) ''o'' ''r'' 7 ex_world
        = (ex_world4, Inr (aggregate ex_pull ex_pending [ex_lint, ex_build]))"
  proof (rule getPRStatus_unmerged [OF ex_client ex_fetchPR])
    show "\<not> pr_merged ex_pull" by (simp add: ex_pull_simps)
    show "fetchStatus (service ex_pull ex_pending [ex_lint, ex_build]) ''o'' ''r'' 7
            (pr_head_sha ex_pull) ex_world2 = (ex_world3, Inr ex_pending)"
      by (simp add: ex_pull_simps ex_fetchStatus)
    show "fetchChecks (service ex_pull ex_pending [ex_lint, ex_build]) ''o'' ''r'' 7
            (pr_head_sha ex_pull) ex_world3 = (ex_world4, Inr [ex_lint, ex_build])"
      by (simp add: ex_pull_simps ex_fetchChecks)
  qed
  moreover have "aggregate ex_pull ex_pending [ex_lint, ex_build]
        = \<lparr>merged = False, mergeable = Some True, branch = ''fix'',
                ciStatus = CI_failure, ciDetails = ''lint: failure''\<rparr>"
    by (simp add: aggregate_def ex_pull_def ex_pending_def ex_lint_def ex_build_def
        check_failed_def check_detail_def push_fallback_def)
  ultimately show ?thesis by (simp add: ex_build_def)
qed

text \<open>On the input of the counterexample the listing without retries waits.\<close>

theorem getPRStatus_settled_failure_only_when_settled_witness:
  "getGitHubClient ex_world = (ex_world1, Inr ())
   \<and> call_pulls_get (service ex_pull ex_pending [ex_lint, ex_build]) ''o'' ''r'' 7 ex_world1
       = (ex_world2, Inr ex_pull)
   \<and> \<not> pr_merged ex_pull
   \<and> call_getCombinedStatusForRef (service ex_pull ex_pending [ex_lint, ex_build]) ''o'' ''r''
        (pr_head_sha ex_pull) ex_world2 = (ex_world3, Inr ex_pending)
   \<and> call_checks_listForRef (service ex_pull ex_pending [ex_lint, ex_build]) ''o'' ''r''
        (pr_head_sha ex_pull) ex_world3 = (ex_world4, Inr [ex_lint, ex_build])
   \<and> c_status ex_build \<noteq> ''completed''
   \<and> (\<exists>r. getPRStatus_settled (service ex_pull ex_pending [ex_lint, ex_build]) ''o'' ''r'' 7 ex_world
              = (ex_world4, Inr r)
          \<and> ciStatus r = CI_pending)"
proof -
  let ?gh = "service ex_pull ex_pending [ex_lint, ex_build]"
  have h1: "getGitHubClient ex_world = (ex_world1, Inr ())" by (rule ex_client)
  have h2: "call_pulls_get ?gh ''o'' ''r'' 7 ex_world1 = (ex_world2, Inr ex_pull)"
    by (rule ex_call_pulls)
  have h3: "\<not> pr_merged ex_pull" by (simp add: ex_pull_simps)
  have h4: "call_getCombinedStatusForRef ?gh ''o'' ''r'' (pr_head_sha ex_pull) ex_world2
              = (ex_world3, Inr ex_pending)"
    by (simp add: ex_pull_simps ex_call_status)
  have h5: "call_checks_listForRef ?gh ''o'' ''r'' (pr_head_sha ex_pull) ex_world3
              = (ex_world4, Inr [ex_lint, ex_build])"
    by (simp add: ex_pull_simps ex_call_checks)
  have build: "c_status ex_build \<noteq> ''completed''" by (simp add: ex_build_def)
  from getPRStatus_settled_failure_only_when_settled [OF h1 h2 h3 h4 h5] obtain r where
    r: "getPRStatus_settled ?gh ''o'' ''r'' 7 ex_world = (ex_world4, Inr r)"
    and p: "(\<exists>s\<in>set (cs_statuses ex_pending). s_state s = ''pending'')
        \<or> (\<exists>c\<in>set [ex_lint, ex_build]. c_status c \<noteq> ''completed'')
      \<longrightarrow> ciStatus r = CI_pending"
    by blast
  from p build have "ciStatus r = CI_pending" by simp
  with r h1 h2 h3 h4 h5 build show ?thesis by blast
qed

text \<open>
  A service that answers the first \<open>pulls.get\<close> with 503 and the second with a merged pull
  request, and would reject the two other requests: two requests are sent, both
  \<open>pulls.get\<close>.
\<close>

theorem getPRStatus_merged_short_circuit_witness:
  "getGitHubClient ex_world = (ex_world1, Inr ())
   \<and> fetchPR (flaky_service ex_merged_pull) ''o'' ''r'' 7 ex_world1 = (flaky_world2, Inr ex_merged_pull)
   \<and> pr_merged ex_merged_pull
   \<and> getPRStatus (flaky_service ex_merged_pull) ''o'' ''r'' 7 ex_world
       = (flaky_world2,
          Inr \<lparr>merged = True, mergeable = None, branch = ''fix'',
                ciStatus = CI_success, ciDetails = []\<rparr>)
   \<and> requests flaky_world2 = [PullsGet ''o'' ''r'' 7, PullsGet ''o'' ''r'' 7]"
proof -
  have h1: "getGitHubClient ex_world = (ex_world1, Inr ())" by (rule ex_client)
  have d: "digits 7 = ''7''" by (simp add: digits.simps)
  have h2: "fetchPR (flaky_service ex_merged_pull) ''o'' ''r'' 7 ex_world1
              = (flaky_world2, Inr ex_merged_pull)"
    by (simp add: fetchPR_def withRetry_def retry_loop.simps call_pulls_get_def flaky_service_def
        ex_world1_def flaky_world2_def d)
  have h3: "pr_merged ex_merged_pull" by (simp add: ex_merged_pull_def)
  have "pr_head_ref ex_merged_pull = ''fix''" by (simp add: ex_merged_pull_def)
  with getPRStatus_merged_short_circuit [OF h1 h2 h3] h1 h2 h3 show ?thesis
    by (simp add: flaky_world2_def)
qed

text \<open>Two legacy entries and two check runs give four lines.\<close>

theorem getPRStatus_failure_details_witness:
  "getGitHubClient ex_world = (ex_world1, Inr ())
   \<and> fetchPR (service ex_pull ex_failed [ex_lint, ex_build, ex_e2e]) ''o'' ''r'' 7 ex_world1
       = (ex_world2, Inr ex_pull)
   \<and> \<not> pr_merged ex_pull
   \<and> fetchStatus (service ex_pull ex_failed [ex_lint, ex_build, ex_e2e]) ''o'' ''r'' 7
        (pr_head_sha ex_pull) ex_world2 = (ex_world3, Inr ex_failed)
   \<and> fetchChecks (service ex_pull ex_failed [ex_lint, ex_build, ex_e2e]) ''o'' ''r'' 7
        (pr_head_sha ex_pull) ex_world3 = (ex_world4, Inr [ex_lint, ex_build, ex_e2e])
   \<and> (\<exists>r. getPRStatus (service ex_pull ex_failed [ex_lint, ex_build, ex_e2e]) ''o'' ''r'' 7 ex_world
              = (ex_world4, Inr r)
          \<and> ciStatus r = CI_failure
          \<and> ciDetails r =
              ''ci/deploy: failed'' @ [CHR 0x0A] @ ''ci/unit: 3 tests failed'' @ [CHR 0x0A]
              @ ''lint: failure'' @ [CHR 0x0A] @ ''e2e: timed_out'')"
proof -
  let ?gh = "service ex_pull ex_failed [ex_lint, ex_build, ex_e2e]"
  have h1: "getGitHubClient ex_world = (ex_world1, Inr ())" by (rule ex_client)
  have h2: "fetchPR ?gh ''o'' ''r'' 7 ex_world1 = (ex_world2, Inr ex_pull)" by (rule ex_fetchPR)
  have h3: "\<not> pr_merged ex_pull" by (simp add: ex_pull_simps)
  have h4: "fetchStatus ?gh ''o'' ''r'' 7 (pr_head_sha ex_pull) ex_world2 = (ex_world3, Inr ex_failed)"
    by (simp add: ex_pull_simps ex_fetchStatus)
  have h5: "fetchChecks ?gh ''o'' ''r'' 7 (pr_head_sha ex_pull) ex_world3
              = (ex_world4, Inr [ex_lint, ex_build, ex_e2e])"
    by (simp add: ex_pull_simps ex_fetchChecks)
  from getPRStatus_failure_details [OF h1 h2 h3 h4 h5] obtain r where
    r: "getPRStatus ?gh ''o'' ''r'' 7 ex_world = (ex_world4, Inr r)"
    and d: "ciStatus r = CI_failure \<longrightarrow>
        ciDetails r \<noteq> [] \<and>
        ciDetails r =
          join [CHR 0x0A]
            (let captured =
               (if cs_state ex_failed = ''failure''
                then map status_detail (filter status_failed (cs_statuses ex_failed)) else [])
               @ map check_detail (filter check_failed [ex_lint, ex_build, ex_e2e])
             in if captured = [] then [fallback_detail] else captured)"
    by blast
  have "getPRStatus ?gh ''o'' ''r'' 7 ex_world
          = (ex_world4, Inr (aggregate ex_pull ex_failed [ex_lint, ex_build, ex_e2e]))"
    by (rule getPRStatus_unmerged [OF h1 h2 h3 h4 h5])
  with r have "r = aggregate ex_pull ex_failed [ex_lint, ex_build, ex_e2e]" by simp
  then have fail: "ciStatus r = CI_failure"
    by (simp add: aggregate_ciStatus ex_failed_def)
  with d have "ciDetails r =
          join [CHR 0x0A]
            (let captured =
               (if cs_state ex_failed = ''failure''
                then map status_detail (filter status_failed (cs_statuses ex_failed)) else [])
               @ map check_detail (filter check_failed [ex_lint, ex_build, ex_e2e])
             in if captured = [] then [fallback_detail] else captured)"
    by blast
  then have "ciDetails r =
              ''ci/deploy: failed'' @ [CHR 0x0A] @ ''ci/unit: 3 tests failed'' @ [CHR 0x0A]
              @ ''lint: failure'' @ [CHR 0x0A] @ ''e2e: timed_out''"
    by (simp add: ex_failed_def ex_lint_def ex_build_def ex_e2e_def status_failed_def
        status_detail_def check_failed_def check_detail_def)
  with r fail h1 h2 h3 h4 h5 show ?thesis by blast
qed

section \<open>Properties of \<open>summarizeToolUse\<close> and \<open>processAgentMessage\<close>\<close>

lemma table_field_nonempty:
  "map_of TOOL_SUMMARY_FIELDS toolName = Some field \<Longrightarrow> field \<noteq> []"
  by (auto simp: TOOL_SUMMARY_FIELDS_def split: if_splits)

lemma summarizeToolUse_table:
  assumes "map_of TOOL_SUMMARY_FIELDS toolName = Some field"
    and "rawValue rt input field = Inr raw"
  shows "summarizeToolUse rt toolName input cwd =
           Inr (toolName @ '': '' @
                (if cwd \<noteq> None \<and> cwd \<noteq> Some [] \<and> prefix (the cwd) raw
                 then stripLeadingSlash (drop (length (the cwd)) raw) else raw))"
  using assms table_field_nonempty [OF assms(1)]
  by (simp add: summarizeToolUse_def Let_def)

text \<open>
  Claim C4. For a tool name of the table and an input whose raw field value is \<open>raw\<close>:
  when \<open>cwd\<close> is not empty and \<open>raw\<close> starts with it, the summary holds \<open>raw\<close> with that
  prefix removed once (and then one leading slash, the path separator, removed: line 56);
  what follows the prefix is not searched again. When \<open>raw\<close> does not start with \<open>cwd\<close>,
  or \<open>cwd\<close> is empty or not given, the summary holds \<open>raw\<close> unchanged.
\<close>

theorem summarizeToolUse_strips_cwd_once:
  assumes "map_of TOOL_SUMMARY_FIELDS toolName = Some field"
    and "rawValue rt input field = Inr raw"
  shows "(c \<noteq> [] \<and> raw = c @ rest \<longrightarrow>
            summarizeToolUse rt toolName input (Some c)
              = Inr (toolName @ '': '' @ stripLeadingSlash rest))
         \<and> (\<not> prefix c raw \<or> c = [] \<longrightarrow>
            summarizeToolUse rt toolName input (Some c) = Inr (toolName @ '': '' @ raw))
         \<and> summarizeToolUse rt toolName input None = Inr (toolName @ '': '' @ raw)"
  by (auto simp: summarizeToolUse_table [OF assms])

text \<open>A path that repeats the prefix loses it once.\<close>

theorem summarizeToolUse_strips_cwd_once_witness:
  "map_of TOOL_SUMMARY_FIELDS ''Read'' = Some ''file_path''
   \<and> rawValue rt0 ex_read_input ''file_path'' = Inr ''/work/work/src/app.ts''
   \<and> summarizeToolUse rt0 ''Read'' ex_read_input (Some ''/work'') = Inr ''Read: work/src/app.ts''
   \<and> summarizeToolUse rt0 ''Read'' ex_read_input (Some ''/srv'')
       = Inr ''Read: /work/work/src/app.ts''
   \<and> summarizeToolUse rt0 ''Read'' ex_read_input None = Inr ''Read: /work/work/src/app.ts''"
proof -
  have t: "map_of TOOL_SUMMARY_FIELDS ''Read'' = Some ''file_path''"
    by (simp add: TOOL_SUMMARY_FIELDS_def)
  have r: "rawValue rt0 ex_read_input ''file_path'' = Inr ''/work/work/src/app.ts''"
    by (simp add: rawValue_def inputRecord_def ex_read_input_def)
  have a: "summarizeToolUse rt0 ''Read'' ex_read_input (Some ''/work'')
             = Inr (''Read'' @ '': '' @ stripLeadingSlash ''/work/src/app.ts'')"
    using summarizeToolUse_strips_cwd_once [OF t r, of "''/work''" "''/work/src/app.ts''"]
    by simp
  have b: "summarizeToolUse rt0 ''Read'' ex_read_input (Some ''/srv'')
             = Inr (''Read'' @ '': '' @ ''/work/work/src/app.ts'')"
    using summarizeToolUse_strips_cwd_once [OF t r, of "''/srv''"]
    by simp
  have c: "summarizeToolUse rt0 ''Read'' ex_read_input None
             = Inr (''Read'' @ '': '' @ ''/work/work/src/app.ts'')"
    using summarizeToolUse_strips_cwd_once [OF t r]
    by simp
  from a b c t r show ?thesis by simp
qed

text \<open>
  Claim C10. For a tool name of the table, when the input is not an object, or the
  field of the table is absent from it or \<open>null\<close> in it, \<open>summarizeToolUse\<close> does not raise
  and returns the tool name, a colon and a space, with nothing after them.
\<close>

theorem summarizeToolUse_missing_field:
  assumes "map_of TOOL_SUMMARY_FIELDS toolName = Some field"
    and "\<not> (input \<noteq> JNull \<and> typeofObject input) \<or> nullish (jsget input field)"
  shows "summarizeToolUse rt toolName input cwd = Inr (toolName @ '': '')"
proof -
  have "nullish (jsget (inputRecord input) field)"
    using assms(2) by (auto simp: inputRecord_def)
  then have raw: "rawValue rt input field = Inr []"
    by (simp add: rawValue_def)
  show ?thesis
    by (cases cwd) (auto simp: summarizeToolUse_table [OF assms(1) raw])
qed

text \<open>An input that is a string, a field that is \<open>null\<close>, a field that is absent.\<close>

theorem summarizeToolUse_missing_field_witness:
  "map_of TOOL_SUMMARY_FIELDS ''Bash'' = Some ''command''
   \<and> \<not> typeofObject (JStr ''ls'')
   \<and> summarizeToolUse rt0 ''Bash'' (JStr ''ls'') (Some ''/work'') = Inr ''Bash: ''
   \<and> nullish (jsget (JObj [(''command'', JNull)]) ''command'')
   \<and> summarizeToolUse rt0 ''Bash'' (JObj [(''command'', JNull)]) (Some ''/work'') = Inr ''Bash: ''
   \<and> nullish (jsget (JObj [(''cmd'', JStr ''ls'')]) ''command'')
   \<and> summarizeToolUse rt0 ''Bash'' (JObj [(''cmd'', JStr ''ls'')]) None = Inr ''Bash: ''"
proof -
  have t: "map_of TOOL_SUMMARY_FIELDS ''Bash'' = Some ''command''"
    by (simp add: TOOL_SUMMARY_FIELDS_def)
  have a: "\<not> (JStr ''ls'' \<noteq> JNull \<and> typeofObject (JStr ''ls''))
           \<or> nullish (jsget (JStr ''ls'') ''command'')" by simp
  have b: "\<not> (JObj [(''command'', JNull)] \<noteq> JNull \<and> typeofObject (JObj [(''command'', JNull)]))
           \<or> nullish (jsget (JObj [(''command'', JNull)]) ''command'')" by simp
  have c: "\<not> (JObj [(''cmd'', JStr ''ls'')] \<noteq> JNull \<and> typeofObject (JObj [(''cmd'', JStr ''ls'')]))
           \<or> nullish (jsget (JObj [(''cmd'', JStr ''ls'')]) ''command'')" by simp
  from summarizeToolUse_missing_field [OF t a, of rt0 "Some ''/work''"]
       summarizeToolUse_missing_field [OF t b, of rt0 "Some ''/work''"]
       summarizeToolUse_missing_field [OF t c, of rt0 None]
       t
  show ?thesis by simp
qed

lemma toStrElems_strings: "toStrElems rt (map JStr es) = Inr es"
  by (induction es) simp_all

text \<open>
  Claim C8. For a message of type \<open>result\<close> whose subtype is a string other than
  \<open>success\<close> and whose \<open>errors\<close> are a list of strings (or are missing):
  \<open>processAgentMessage\<close> returns exactly one \<open>error\<close> activity, whose summary is
  \<open>Agent error: \<close> followed by the first 200 characters of the error message, and an
  \<open>errorMessage\<close> that is the errors joined by a semicolon and a space when the list is
  not empty, and the subtype otherwise.
\<close>

theorem processAgentMessage_error_result:
  assumes "jsget message ''type'' = JStr ''result''"
    and "jsget message ''subtype'' = JStr subtype"
    and "subtype \<noteq> ''success''"
    and "jsget message ''errors'' = JArr (map JStr errors)
         \<or> nullish (jsget message ''errors'') \<and> errors = []"
  shows "processAgentMessage rt message cwd =
           Inr \<lparr>activities =
                  [\<lparr>timestamp = now rt 0, atype = AT_error,
                    summary = JStr (''Agent error: '' @
                      take 200 (if errors \<noteq> [] then join ''; '' errors else subtype)),
                    detail = None, isSubagent = None\<rparr>],
                sessionId = None, successResult = None,
                errorMessage =
                  Some (JStr (if errors \<noteq> [] then join ''; '' errors else subtype))\<rparr>"
proof -
  have nn: "\<not> nullish message"
    using assms(1) by (cases message) simp_all
  from assms(4) show ?thesis
  proof
    assume e: "jsget message ''errors'' = JArr (map JStr errors)"
    show ?thesis
      using nn assms(1-3) e
      by (cases "errors = []") (simp_all add: processAgentMessage_def toStrElems_strings)
  next
    assume e: "nullish (jsget message ''errors'') \<and> errors = []"
    then have "\<not> lengthTruthy (jsget message ''errors'')"
      by (cases "jsget message ''errors''") simp_all
    then show ?thesis
      using nn assms(1-3) e by (simp add: processAgentMessage_def)
  qed
qed

text \<open>Two structured errors.\<close>

theorem processAgentMessage_error_result_witness:
  "jsget ex_error_message ''type'' = JStr ''result''
   \<and> jsget ex_error_message ''subtype'' = JStr ''error_during_execution''
   \<and> ''error_during_execution'' \<noteq> ''success''
   \<and> jsget ex_error_message ''errors'' = JArr (map JStr [''tool failed'', ''budget exceeded''])
   \<and> processAgentMessage rt0 ex_error_message None =
       Inr \<lparr>activities =
              [\<lparr>timestamp = 1700000000000, atype = AT_error,
                summary = JStr ''Agent error: tool failed; budget exceeded'',
                detail = None, isSubagent = None\<rparr>],
            sessionId = None, successResult = None,
            errorMessage = Some (JStr ''tool failed; budget exceeded'')\<rparr>"
proof -
  have h1: "jsget ex_error_message ''type'' = JStr ''result''"
    by (simp add: ex_error_message_def)
  have h2: "jsget ex_error_message ''subtype'' = JStr ''error_during_execution''"
    by (simp add: ex_error_message_def)
  have h3: "''error_during_execution'' \<noteq> ''success''" by simp
  have h4: "jsget ex_error_message ''errors'' = JArr (map JStr [''tool failed'', ''budget exceeded''])
            \<or> nullish (jsget ex_error_message ''errors'')
               \<and> [''tool failed'', ''budget exceeded''] = []"
    by (simp add: ex_error_message_def)
  from processAgentMessage_error_result [OF h1 h2 h3 h4, of rt0 None] h1 h2
  show ?thesis by (simp add: rt0_def ex_error_message_def)
qed

text \<open>
  Claim C3, as stated, fails: on \<open>null\<close> the first property read, \<open>msg.type\<close>, raises.
\<close>

theorem processAgentMessage_null_counterexample:
  "processAgentMessage rt0 JNull None = Inl TypeError"
  by (simp add: processAgentMessage_def)

text \<open>
  Nor is the function total on objects: a \<open>result\<close> without \<open>subtype\<close> and \<open>errors\<close> raises
  at \<open>errorMessage.slice\<close>.
\<close>

lemma processAgentMessage_result_without_subtype:
  "processAgentMessage rt (JObj [(''type'', JStr ''result'')]) cwd = Inl TypeError"
  by (simp add: processAgentMessage_def)

text \<open>
  Nor on messages of the shape the agent sends: the \<open>input\<close> of a \<open>tool_use\<close> block is
  arbitrary, and a field value that is an object with a key \<open>toString\<close> makes
  \<open>String(...)\<close> at line 54 raise.
\<close>

lemma processAgentMessage_unprintable_tool_input:
  "processAgentMessage rt
     (JObj [(''type'', JStr ''assistant''),
            (''message'', JObj [(''content'',
               JArr [JObj [(''type'', JStr ''tool_use''), (''name'', JStr ''Read''),
                           (''input'', JObj [(''file_path'', JObj [(''toString'', JNum 1)])])]])])])
     cwd = Inl TypeError"
  by (simp add: processAgentMessage_def summarizeToolUse_untyped_def summarizeToolUse_def
      rawValue_def inputRecord_def TOOL_SUMMARY_FIELDS_def)

text \<open>
  Claim C3, amended. On \<open>null\<close> and \<open>undefined\<close> \<open>processAgentMessage\<close> raises a
  \<open>TypeError\<close>. On every other value whose tag is none of \<open>system/init\<close>,
  \<open>system/task_started\<close>, \<open>system/task_notification\<close>, \<open>assistant\<close> with a message, and
  \<open>result\<close>, it returns an empty activity list with no \<open>sessionId\<close>, no \<open>successResult\<close>
  and no \<open>errorMessage\<close>.
\<close>

theorem processAgentMessage_unrecognized:
  "(nullish message \<longrightarrow> processAgentMessage rt message cwd = Inl TypeError)
   \<and> (\<not> nullish message
      \<and> \<not> (jsget message ''type'' = JStr ''system''
            \<and> (jsget message ''subtype'' = JStr ''init''
               \<or> jsget message ''subtype'' = JStr ''task_started''
               \<or> jsget message ''subtype'' = JStr ''task_notification''))
      \<and> \<not> (jsget message ''type'' = JStr ''assistant'' \<and> truthy (jsget message ''message''))
      \<and> jsget message ''type'' \<noteq> JStr ''result''
      \<longrightarrow> processAgentMessage rt message cwd =
            Inr \<lparr>activities = [], sessionId = None, successResult = None,
                  errorMessage = None\<rparr>)"
  by (auto simp: processAgentMessage_def only_activities_def)

text \<open>\<open>undefined\<close> raises; an event of a kind not listed is ignored.\<close>

theorem processAgentMessage_unrecognized_witness:
  "nullish JUndefined
   \<and> processAgentMessage rt0 JUndefined None = Inl TypeError
   \<and> \<not> nullish ex_unknown_message
   \<and> jsget ex_unknown_message ''type'' = JStr ''stream_event''
   \<and> processAgentMessage rt0 ex_unknown_message (Some ''/work'') =
       Inr \<lparr>activities = [], sessionId = None, successResult = None, errorMessage = None\<rparr>"
proof -
  have t: "jsget ex_unknown_message ''type'' = JStr ''stream_event''"
    by (simp add: ex_unknown_message_def)
  have n: "\<not> nullish ex_unknown_message" by (simp add: ex_unknown_message_def)
  from processAgentMessage_unrecognized [of JUndefined rt0 None]
       processAgentMessage_unrecognized [of ex_unknown_message rt0 "Some ''/work''"] t n
  show ?thesis by simp
qed

section \<open>Properties of \<open>removeWorktree\<close>\<close>

lemma removeWorktree_spawned:
  "spawned (removeWorktree sy projectPath name opts w) =
     spawned w
     @ [(projectPath, [''git'', ''worktree'', ''remove'', worktreePath sy projectPath name, ''--force'']),
        (projectPath, [''git'', ''worktree'', ''prune''])]
     @ (if keepBranch opts then []
        else [(projectPath, [''git'', ''branch'', ''-D'', ''worktree-'' @ name])])"
  by (simp add: removeWorktree_def gitSync_def gitPrune_def info_def warn_def Let_def
      split: prod.splits)

text \<open>What \<open>gitSync\<close> hands back, and with it exactly what \<open>removeWorktree\<close> logs.\<close>

lemma gitSync_result:
  "snd (gitSync sy projectPath args w) =
     (if fst (spawnSync sy (spawned w) projectPath (''git'' # args)) \<noteq> 0
      then Some (trim (snd (spawnSync sy (spawned w) projectPath (''git'' # args))))
      else None)"
  by (simp add: gitSync_def Let_def split: prod.splits)

lemma removeWorktree_logged:
  "logged (removeWorktree sy projectPath name opts w) =
     logged w @ [(Info, ''Removing worktree: '' @ name)]
     @ (let wtErr = snd (gitSync sy projectPath
                      [''worktree'', ''remove'', worktreePath sy projectPath name, ''--force''] w)
        in if reported wtErr
           then [(Warn, ''Failed to remove worktree '' @ quoted name @ '': '' @ the wtErr)]
           else [])
     @ (if keepBranch opts then []
        else (let brErr = snd (gitSync sy projectPath [''branch'', ''-D'', ''worktree-'' @ name]
                   (w\<lparr>spawned := spawned w
                      @ [(projectPath, [''git'', ''worktree'', ''remove'',
                                        worktreePath sy projectPath name, ''--force'']),
                         (projectPath, [''git'', ''worktree'', ''prune''])]\<rparr>))
              in if reported brErr
                 then [(Warn, ''Failed to delete branch '' @ quoted (''worktree-'' @ name)
                              @ '': '' @ the brErr)]
                 else []))"
proof -
  let ?wt = "worktreePath sy projectPath name"
  let ?c1 = "(projectPath, [''git'', ''worktree'', ''remove'', ?wt, ''--force''])"
  let ?c2 = "(projectPath, [''git'', ''worktree'', ''prune''])"
  obtain x1 e1 where r1:
    "spawnSync sy (spawned w) projectPath [''git'', ''worktree'', ''remove'', ?wt, ''--force'']
       = (x1, e1)"
    by fastforce
  obtain x2 e2 where r2:
    "spawnSync sy (spawned w @ [?c1]) projectPath [''git'', ''worktree'', ''prune''] = (x2, e2)"
    by fastforce
  obtain x3 e3 where r3:
    "spawnSync sy (spawned w @ [?c1, ?c2]) projectPath
       [''git'', ''branch'', ''-D'', ''worktree-'' @ name] = (x3, e3)"
    by fastforce
  show ?thesis
    using r1 r2 r3
    by (simp add: removeWorktree_def gitSync_def gitPrune_def info_def warn_def Let_def)
qed

text \<open>
  A git that fails loudly: the call returns with three commands run and both failures
  in the log.
\<close>

lemma removeWorktree_failing_git:
  "removeWorktree failing_git ''/repo'' ''fix-1'' None quiet_world =
     \<lparr>spawned =
        [(''/repo'', [''git'', ''worktree'', ''remove'', ''/repo/.claude/worktrees/fix-1'', ''--force'']),
         (''/repo'', [''git'', ''worktree'', ''prune'']),
         (''/repo'', [''git'', ''branch'', ''-D'', ''worktree-fix-1''])],
      logged =
        [(Info, ''Removing worktree: fix-1''),
         (Warn, ''Failed to remove worktree '' @ [CHR 0x27] @ ''fix-1'' @ [CHR 0x27]
                  @ '': fatal: not a git repository''),
         (Warn, ''Failed to delete branch '' @ [CHR 0x27] @ ''worktree-fix-1'' @ [CHR 0x27]
                  @ '': fatal: not a git repository'')]\<rparr>"
proof -
  have t: "trim (''fatal: not a git repository'' @ [CHR 0x0A]) = ''fatal: not a git repository''"
    by (simp add: trim_def isSpace_def)
  show ?thesis
    using t
    by (simp add: removeWorktree_def gitSync_def gitPrune_def info_def warn_def Let_def
        worktreePath_def quoted_def failing_git_def quiet_world_def)
qed

text \<open>
  Claim C5 has \<open>removeWorktree\<close> return, prune again after the removal attempt, delete
  the branch \<open>worktree-<name>\<close> exactly when \<open>keepBranch\<close> is not set, and log the
  failures of its commands. The first three hold for every answer of git
  (\<open>removeWorktree_spawned\<close>). The last does not: at a git that exits with code 137 and
  writes nothing to standard error, \<open>gitSync\<close> hands back the empty string, \<open>if (wtErr)\<close>
  and \<open>if (brErr)\<close> take it for \<open>undefined\<close>, and the two failed commands leave no line
  in the log.
\<close>

theorem removeWorktree_silent_failure:
  "spawnSync silent_git [] ''/repo''
       [''git'', ''worktree'', ''remove'', ''/repo/.claude/worktrees/fix-1'', ''--force'']
     = (137, [])
   \<and> removeWorktree silent_git ''/repo'' ''fix-1'' None quiet_world =
     \<lparr>spawned =
        [(''/repo'', [''git'', ''worktree'', ''remove'', ''/repo/.claude/worktrees/fix-1'', ''--force'']),
         (''/repo'', [''git'', ''worktree'', ''prune'']),
         (''/repo'', [''git'', ''branch'', ''-D'', ''worktree-fix-1''])],
      logged = [(Info, ''Removing worktree: fix-1'')]\<rparr>"
proof -
  have t: "trim [] = []"
    by (simp add: trim_def)
  show ?thesis
    using t
    by (simp add: removeWorktree_def gitSync_def gitPrune_def info_def warn_def Let_def
        worktreePath_def silent_git_def quiet_world_def)
qed

text \<open>
  The same test in \<open>createWorktree\<close>: a \<open>git worktree add\<close> that fails without a message
  is taken for a success, and the path of a worktree that was not created is returned.
\<close>

lemma createWorktree_silent_failure:
  "snd (createWorktree silent_git ''/repo'' ''fix-1'' None quiet_world)
     = Inr ''/repo/.claude/worktrees/fix-1''"
proof -
  have t: "trim [] = []"
    by (simp add: trim_def)
  show ?thesis
    using t
    by (simp add: createWorktree_def gitSync_def gitPrune_def info_def warn_def Let_def
        worktreePath_def silent_git_def quiet_world_def)
qed

section \<open>Properties of \<open>renderPrompt\<close>\<close>

lemma renderPrompt_snoc:
  "renderPrompt template (vars @ [(key, value)]) =
     replaceAll (renderPrompt template vars) (''{{'' @ key @ ''}}'') (sanitizePromptValue value)"
  unfolding renderPrompt_def
  by (induction vars arbitrary: template) auto

text \<open>
  Claim C9. \<open>renderPrompt\<close> replaces one key at a time in the whole intermediate result:
  adding a last entry to \<open>vars\<close> applies \<open>replaceAll\<close> to the rendering for the entries
  before it. So a placeholder brought in by the value of \<open>A\<close> is expanded by a key \<open>B\<close>
  that comes later, and is left alone by one that came earlier.
\<close>

theorem renderPrompt_sequential:
  "renderPrompt template (vars @ [(key, value)]) =
     replaceAll (renderPrompt template vars) (''{{'' @ key @ ''}}'') (sanitizePromptValue value)
   \<and> renderPrompt ''{{A}}'' [(''A'', ''{{B}}''), (''B'', ''injected'')] = ''injected''
   \<and> renderPrompt ''{{A}}'' [(''B'', ''injected''), (''A'', ''{{B}}'')] = ''{{B}}''"
proof (intro conjI)
  show "renderPrompt template (vars @ [(key, value)]) =
     replaceAll (renderPrompt template vars) (''{{'' @ key @ ''}}'') (sanitizePromptValue value)"
    by (rule renderPrompt_snoc)
  show "renderPrompt ''{{A}}'' [(''A'', ''{{B}}''), (''B'', ''injected'')] = ''injected''"
    by code_simp
  show "renderPrompt ''{{A}}'' [(''B'', ''injected''), (''A'', ''{{B}}'')] = ''{{B}}''"
    by code_simp
qed

end
